theory Spec2Isabelle
  imports Complex_Main
begin

section \<open>Tensors, exceptions and the model\<close>

text \<open>
  The notebook \<^verbatim>\<open>5-inference-and-validation.ipynb\<close> trains a four-layer classifier
  on Fashion-MNIST and validates it after every epoch. Tensor entries are modelled as
  real numbers (the exact arithmetic that the float32 tensors approximate), a 2-D tensor
  as the list of its rows, and an image as the list of its pixels (the order in which
  \<^verbatim>\<open>view\<close> reads them). A minibatch is the pair \<^verbatim>\<open>images, labels\<close> that a data
  loader yields. Every exception that Python or the tensor library raises is a value
  \<open>Inl e\<close> of the result.
\<close>

datatype error = ZeroDivisionError | RuntimeError | ValueError | IndexError | StopIteration

type_synonym vec = "real list"
type_synonym mat = "real list list"
type_synonym batch = "mat \<times> nat list"

definition and_then :: "error + 'a \<Rightarrow> ('a \<Rightarrow> error + 'b) \<Rightarrow> error + 'b" where
  "and_then m f = (case m of Inl e \<Rightarrow> Inl e | Inr x \<Rightarrow> f x)"

text \<open>The model's mode flag (\<^verbatim>\<open>model.training\<close>), set by \<^verbatim>\<open>model.train()\<close> and
  \<^verbatim>\<open>model.eval()\<close>.\<close>

datatype mode = Training | Evaluation

text \<open>\<^verbatim>\<open>nn.Linear(in_features, out_features)\<close>: one weight row and one bias entry per
  output unit.\<close>

record linear =
  in_features :: nat
  weight :: mat
  bias :: vec

text \<open>\<^verbatim>\<open>Classifier.__init__\<close>: the four dense layers. The dropout module of the second
  class definition has no parameters.\<close>

record classifier =
  fc1 :: linear
  fc2 :: linear
  fc3 :: linear
  fc4 :: linear

definition linear_shape :: "nat \<Rightarrow> nat \<Rightarrow> linear \<Rightarrow> bool" where
  "linear_shape n_in n_out l \<longleftrightarrow>
     in_features l = n_in \<and> length (weight l) = n_out \<and>
     list_all (\<lambda>w. length w = n_in) (weight l) \<and> length (bias l) = n_out"

text \<open>The layer sizes that \<^verbatim>\<open>__init__\<close> fixes: 784, 256, 128, 64 and 10 classes.\<close>

definition classifier_shape :: "classifier \<Rightarrow> bool" where
  "classifier_shape c \<longleftrightarrow>
     linear_shape 784 256 (fc1 c) \<and> linear_shape 256 128 (fc2 c) \<and>
     linear_shape 128 64 (fc3 c) \<and> linear_shape 64 10 (fc4 c)"

definition dot :: "vec \<Rightarrow> vec \<Rightarrow> real" where
  "dot w x = sum_list (map2 (*) w x)"

definition affine :: "linear \<Rightarrow> vec \<Rightarrow> vec" where
  "affine l x = map2 (\<lambda>w b. dot w x + b) (weight l) (bias l)"

text \<open>Applying a linear layer to a batch raises when a row has not \<open>in_features\<close> entries.\<close>

definition linear_fwd :: "linear \<Rightarrow> mat \<Rightarrow> error + mat" where
  "linear_fwd l x =
     (if list_all (\<lambda>r. length r = in_features l) x then Inr (map (affine l) x)
      else Inl RuntimeError)"

text \<open>\<^verbatim>\<open>x.view(x.shape[0], -1)\<close>: the rows are already flat; the call raises on a batch
  without examples, where the size of the free dimension is ambiguous.\<close>

definition view_rows :: "mat \<Rightarrow> error + mat" where
  "view_rows x = (if x = [] then Inl RuntimeError else Inr x)"

definition relu :: "mat \<Rightarrow> mat" where
  "relu x = map (map (\<lambda>v. max 0 v)) x"

text \<open>\<^verbatim>\<open>F.log_softmax(x, dim=1)\<close>: each row minus the logarithm of the sum of its
  exponentials.\<close>

definition log_softmax :: "mat \<Rightarrow> mat" where
  "log_softmax x = map (\<lambda>row. map (\<lambda>v. v - ln (sum_list (map exp row))) row) x"

text \<open>\<^verbatim>\<open>Classifier.forward\<close> of the first class definition (no dropout).\<close>

definition forward_plain :: "classifier \<Rightarrow> mat \<Rightarrow> error + mat" where
  "forward_plain c x =
     and_then (view_rows x) (\<lambda>x.
     and_then (linear_fwd (fc1 c) x) (\<lambda>h1.
     and_then (linear_fwd (fc2 c) (relu h1)) (\<lambda>h2.
     and_then (linear_fwd (fc3 c) (relu h2)) (\<lambda>h3.
     and_then (linear_fwd (fc4 c) (relu h3)) (\<lambda>h4.
     Inr (log_softmax h4))))))"

text \<open>
  \<^verbatim>\<open>nn.Dropout(p=0.2)\<close>. In training mode the module draws one keep/drop decision per
  entry from the random generator, zeroes the dropped entries and divides the kept ones
  by \<open>1 - p\<close>; in evaluation mode it returns its input and does not touch the generator.
  The generator is the library's: \<open>bern r shape\<close> gives the mask drawn in generator
  state \<open>r\<close> for rows of the given lengths, and the next generator state.
\<close>

definition dropout_p :: real where
  "dropout_p = 0.2"

definition apply_mask :: "bool list list \<Rightarrow> mat \<Rightarrow> mat" where
  "apply_mask msk x = map2 (map2 (\<lambda>keep v. if keep then v / (1 - dropout_p) else 0)) msk x"

definition dropout ::
  "('r \<Rightarrow> nat list \<Rightarrow> bool list list \<times> 'r) \<Rightarrow> mode \<Rightarrow> 'r \<Rightarrow> mat \<Rightarrow> mat \<times> 'r" where
  "dropout bern m r x =
     (case m of
        Evaluation \<Rightarrow> (x, r)
      | Training \<Rightarrow> (case bern r (map length x) of (msk, r') \<Rightarrow> (apply_mask msk x, r')))"

text \<open>\<^verbatim>\<open>Classifier.forward\<close> of the second class definition (with dropout after each
  hidden layer, none on the output).\<close>

definition forward_dropout ::
  "('r \<Rightarrow> nat list \<Rightarrow> bool list list \<times> 'r) \<Rightarrow> classifier \<Rightarrow> mode \<Rightarrow> 'r \<Rightarrow> mat
     \<Rightarrow> error + (mat \<times> 'r)" where
  "forward_dropout bern c m r x =
     and_then (view_rows x) (\<lambda>x.
     and_then (linear_fwd (fc1 c) x) (\<lambda>h1. case dropout bern m r (relu h1) of (x1, r1) \<Rightarrow>
     and_then (linear_fwd (fc2 c) x1) (\<lambda>h2. case dropout bern m r1 (relu h2) of (x2, r2) \<Rightarrow>
     and_then (linear_fwd (fc3 c) x2) (\<lambda>h3. case dropout bern m r2 (relu h3) of (x3, r3) \<Rightarrow>
     and_then (linear_fwd (fc4 c) x3) (\<lambda>h4.
     Inr (log_softmax h4, r3))))))"


section \<open>The library collaborators\<close>

text \<open>
  Four parts of the library are parameters of the model: the gradient that
  \<^verbatim>\<open>loss.backward()\<close> computes for a minibatch (from the parameters, the mode flag and
  the generator state the forward pass started in), the update of \<^verbatim>\<open>optim.Adam\<close>,
  the random generator behind dropout, and the choice that \<^verbatim>\<open>topk\<close> makes among
  equal maxima.
\<close>

record ('g, 'o, 'r) torch =
  autograd :: "classifier \<Rightarrow> mode \<Rightarrow> 'r \<Rightarrow> batch \<Rightarrow> 'g"
  adam_step :: "'o \<Rightarrow> classifier \<Rightarrow> 'g list \<Rightarrow> classifier \<times> 'o"
  bernoulli :: "'r \<Rightarrow> nat list \<Rightarrow> bool list list \<times> 'r"
  tie_choice :: "vec \<Rightarrow> nat"

section \<open>Tensor operations of the validation step and the loss\<close>

text \<open>\<^verbatim>\<open>torch.exp\<close>, element-wise.\<close>

definition exp_t :: "mat \<Rightarrow> mat" where
  "exp_t x = map (map exp) x"

text \<open>
  \<^verbatim>\<open>ps.topk(1, dim=1)\<close>: for every row the largest value and the index of an entry that
  holds it, each as a row of one entry. \<open>top_classes row\<close> lists the indices that hold the
  largest value of the row, in ascending order. Which of them the library returns when
  there are several is its own affair and the notebook does not fix it: \<open>tie_choice\<close>
  numbers the one taken for a given row (read modulo how many there are), so that the
  index returned is always one of \<open>top_classes row\<close> and the same row always gets the
  same index. On rows without entries the call raises.
\<close>

definition is_top_index :: "vec \<Rightarrow> nat \<Rightarrow> bool" where
  "is_top_index row k \<longleftrightarrow> k < length row \<and> list_all (\<lambda>v. v \<le> row ! k) row"

definition top_classes :: "vec \<Rightarrow> nat list" where
  "top_classes row = filter (is_top_index row) [0..<length row]"

definition topk_pick :: "('g, 'o, 'r) torch \<Rightarrow> vec \<Rightarrow> nat" where
  "topk_pick T row = top_classes row ! (tie_choice T row mod length (top_classes row))"

definition topk1 :: "('g, 'o, 'r) torch \<Rightarrow> mat \<Rightarrow> error + (mat \<times> nat list list)" where
  "topk1 T ps =
     (if list_all (\<lambda>row. row \<noteq> []) ps
      then Inr (map (\<lambda>row. [row ! topk_pick T row]) ps, map (\<lambda>row. [topk_pick T row]) ps)
      else Inl RuntimeError)"

text \<open>\<^verbatim>\<open>labels.view(*top_class.shape)\<close>, where \<^verbatim>\<open>top_class\<close> has \<open>n\<close> rows of one
  entry: the labels as a column; raises unless there are exactly \<open>n\<close> labels.\<close>

definition view_col :: "nat \<Rightarrow> nat list \<Rightarrow> error + nat list list" where
  "view_col n labels = (if length labels = n then Inr (map (\<lambda>y. [y]) labels) else Inl RuntimeError)"

text \<open>\<^verbatim>\<open>top_class == labels.view(...)\<close> on tensors of the same shape, the conversion
  \<^verbatim>\<open>equals.type(torch.FloatTensor)\<close> and \<^verbatim>\<open>torch.mean\<close> over all entries.\<close>

definition eq_t :: "nat list list \<Rightarrow> nat list list \<Rightarrow> bool list list" where
  "eq_t a b = map2 (map2 (=)) a b"

definition float_t :: "bool list list \<Rightarrow> mat" where
  "float_t x = map (map (\<lambda>b. if b then 1 else 0)) x"

definition mean_t :: "mat \<Rightarrow> real" where
  "mean_t x = sum_list (concat x) / real (length (concat x))"

text \<open>
  \<^verbatim>\<open>nn.NLLLoss()\<close> with its default mean reduction: the mean over the batch of the
  negated log-probability of the true class. It raises when the batch sizes differ and
  when a label is not a class index. (A batch without examples never gets here: the
  forward pass has raised on it.)
\<close>

definition nll_loss :: "mat \<Rightarrow> nat list \<Rightarrow> error + real" where
  "nll_loss log_ps labels =
     (if length log_ps \<noteq> length labels then Inl ValueError
      else if \<not> list_all (\<lambda>(row, y). y < length row) (zip log_ps labels) then Inl IndexError
      else Inr (sum_list (map2 (\<lambda>row y. - (row ! y)) log_ps labels) / real (length labels)))"

section \<open>The program state\<close>

text \<open>
  What the program observably does is recorded as a trace: the calls into the library in
  the order of the source, with the mode flag and the gradient-tracking flag at every
  forward pass, and the figures that the \<^verbatim>\<open>print\<close> statements show.
\<close>

datatype pass = TrainPass | ValPass | Inference

datatype event =
    ZeroGrad
  | Forward pass mode bool
  | Criterion pass
  | Backward
  | OptimizerStep
  | AccumulateLoss
  | NoGradEnter
  | NoGradExit
  | ModelEval
  | ModelTrain
  | PrintAccuracy real
  | PrintLoss real
  | ViewClassify mat mat

text \<open>
  The state: the model (parameters and mode flag), the library's gradient-tracking flag,
  the gradients accumulated in the parameters since they were last cleared, the optimizer's
  own state, the dropout generator, and the trace.
\<close>

record ('g, 'o, 'r) state =
  params :: classifier
  mode :: mode
  grad_enabled :: bool
  grads :: "'g list"
  opt_state :: 'o
  rng :: 'r
  trace :: "event list"

text \<open>\<^verbatim>\<open>model(images)\<close> for the two class definitions.\<close>

definition call_plain :: "('g, 'o, 'r) state \<Rightarrow> mat \<Rightarrow> error + (mat \<times> 'r)" where
  "call_plain s x = and_then (forward_plain (params s) x) (\<lambda>y. Inr (y, rng s))"

definition call_dropout ::
  "('g, 'o, 'r) torch \<Rightarrow> ('g, 'o, 'r) state \<Rightarrow> mat \<Rightarrow> error + (mat \<times> 'r)" where
  "call_dropout T s x = forward_dropout (bernoulli T) (params s) (mode s) (rng s) x"


section \<open>The training pass (both loops)\<close>

text \<open>
  The body of \<^verbatim>\<open>for images, labels in trainloader\<close>, the same text in both loops:
  \<^verbatim>\<open>optimizer.zero_grad()\<close>, \<^verbatim>\<open>log_ps = model(images)\<close>,
  \<^verbatim>\<open>loss = criterion(log_ps, labels)\<close>, \<^verbatim>\<open>loss.backward()\<close>,
  \<^verbatim>\<open>optimizer.step()\<close>, \<^verbatim>\<open>running_loss += loss.item()\<close>. The model call is a
  parameter, since the two loops use the two class definitions. \<^verbatim>\<open>backward\<close> raises on
  a loss that was computed with gradient tracking off.
\<close>

definition train_step ::
  "('g, 'o, 'r) torch \<Rightarrow> (('g, 'o, 'r) state \<Rightarrow> mat \<Rightarrow> error + (mat \<times> 'r)) \<Rightarrow> batch
     \<Rightarrow> ('g, 'o, 'r) state \<times> real \<Rightarrow> error + (('g, 'o, 'r) state \<times> real)" where
  "train_step T model b sr =
     (case sr of (s, running_loss) \<Rightarrow>
      let s1 = s\<lparr>grads := [], trace := trace s @ [ZeroGrad]\<rparr> in
      and_then (model s1 (fst b)) (\<lambda>(log_ps, r).
      let s2 = s1\<lparr>rng := r,
                  trace := trace s1 @ [Forward TrainPass (mode s1) (grad_enabled s1)]\<rparr> in
      and_then (nll_loss log_ps (snd b)) (\<lambda>loss.
      let s3 = s2\<lparr>trace := trace s2 @ [Criterion TrainPass]\<rparr> in
      if \<not> grad_enabled s3 then Inl RuntimeError
      else
        let s4 = s3\<lparr>grads := grads s3 @ [autograd T (params s1) (mode s1) (rng s1) b],
                    trace := trace s3 @ [Backward]\<rparr>;
            upd = adam_step T (opt_state s4) (params s4) (grads s4);
            s5 = s4\<lparr>params := fst upd, opt_state := snd upd,
                    trace := trace s4 @ [OptimizerStep]\<rparr>
        in Inr (s5\<lparr>trace := trace s5 @ [AccumulateLoss]\<rparr>, running_loss + loss))))"

fun train_loop ::
  "('g, 'o, 'r) torch \<Rightarrow> (('g, 'o, 'r) state \<Rightarrow> mat \<Rightarrow> error + (mat \<times> 'r)) \<Rightarrow> batch list
     \<Rightarrow> ('g, 'o, 'r) state \<times> real \<Rightarrow> error + (('g, 'o, 'r) state \<times> real)" where
  "train_loop T model [] sr = Inr sr"
| "train_loop T model (b # bs) sr = and_then (train_step T model b sr) (train_loop T model bs)"

section \<open>The first train-and-validate loop (no dropout, accuracy only)\<close>

text \<open>The body of \<^verbatim>\<open>for images, labels in testloader\<close>.\<close>

definition val_step13 ::
  "('g, 'o, 'r) torch \<Rightarrow> batch \<Rightarrow> ('g, 'o, 'r) state \<times> real
     \<Rightarrow> error + (('g, 'o, 'r) state \<times> real)" where
  "val_step13 T b sa =
     (case sa of (s, accuracy_accum) \<Rightarrow>
      and_then (call_plain s (fst b)) (\<lambda>(log_ps, r).
      let s1 = s\<lparr>rng := r, trace := trace s @ [Forward ValPass (mode s) (grad_enabled s)]\<rparr>;
          ps = exp_t log_ps in
      and_then (topk1 T ps) (\<lambda>(top_p, top_class).
      and_then (view_col (length top_class) (snd b)) (\<lambda>labels_v.
      let equals = eq_t top_class labels_v in
      Inr (s1, accuracy_accum + mean_t (float_t equals))))))"

fun val_loop13 ::
  "('g, 'o, 'r) torch \<Rightarrow> batch list \<Rightarrow> ('g, 'o, 'r) state \<times> real
     \<Rightarrow> error + (('g, 'o, 'r) state \<times> real)" where
  "val_loop13 T [] sa = Inr sa"
| "val_loop13 T (b # bs) sa = and_then (val_step13 T b sa) (val_loop13 T bs)"

text \<open>
  The \<^verbatim>\<open>else\<close> branch of the training loop: \<^verbatim>\<open>accuracy_accum = 0\<close>, the validation
  loop inside \<^verbatim>\<open>with torch.no_grad()\<close> (which restores the flag it found), and the
  \<^verbatim>\<open>print\<close> of \<^verbatim>\<open>accuracy_accum / len(testloader) * 100\<close> followed by a percent sign.
  With no validation batch both operands of the division are the Python integer 0, and
  Python raises \<^verbatim>\<open>ZeroDivisionError\<close>.
\<close>

definition validate13 ::
  "('g, 'o, 'r) torch \<Rightarrow> batch list \<Rightarrow> ('g, 'o, 'r) state \<Rightarrow> error + ('g, 'o, 'r) state" where
  "validate13 T testloader s =
     (let prev = grad_enabled s;
          s1 = s\<lparr>grad_enabled := False, trace := trace s @ [NoGradEnter]\<rparr> in
      and_then (val_loop13 T testloader (s1, 0)) (\<lambda>(s2, accuracy_accum).
      let s3 = s2\<lparr>grad_enabled := prev, trace := trace s2 @ [NoGradExit]\<rparr> in
      if length testloader = 0 then Inl ZeroDivisionError
      else Inr (s3\<lparr>trace := trace s3 @
                  [PrintAccuracy (accuracy_accum / real (length testloader) * 100)]\<rparr>)))"

text \<open>One epoch: \<^verbatim>\<open>running_loss = 0\<close>, the training loop, then its \<^verbatim>\<open>else\<close> branch
  (the loop has no \<^verbatim>\<open>break\<close>).\<close>

definition epoch13 ::
  "('g, 'o, 'r) torch \<Rightarrow> batch list \<Rightarrow> batch list \<Rightarrow> ('g, 'o, 'r) state
     \<Rightarrow> error + ('g, 'o, 'r) state" where
  "epoch13 T trainloader testloader s =
     and_then (train_loop T call_plain trainloader (s, 0)) (\<lambda>(s1, running_loss).
     validate13 T testloader s1)"

text \<open>
  \<^verbatim>\<open>for e in range(epochs)\<close>. Both loaders shuffle, so a loader is the function that
  gives, for the epoch number, the minibatches it yields in that epoch.
\<close>

fun epochs13 ::
  "('g, 'o, 'r) torch \<Rightarrow> (nat \<Rightarrow> batch list) \<Rightarrow> (nat \<Rightarrow> batch list) \<Rightarrow> nat list
     \<Rightarrow> ('g, 'o, 'r) state \<Rightarrow> error + ('g, 'o, 'r) state" where
  "epochs13 T trainloader testloader [] s = Inr s"
| "epochs13 T trainloader testloader (e # es) s =
     and_then (epoch13 T (trainloader e) (testloader e) s) (epochs13 T trainloader testloader es)"

text \<open>
  The whole cell: \<^verbatim>\<open>model = Classifier()\<close> (fresh parameters \<open>c0\<close>, mode flag
  training), \<^verbatim>\<open>optimizer = optim.Adam(...)\<close> (fresh optimizer state \<open>o0\<close>),
  \<^verbatim>\<open>epochs = 30\<close>. The gradient-tracking flag \<open>g0\<close> and the generator state \<open>r0\<close>
  are what the cell finds.
\<close>

definition fresh :: "classifier \<Rightarrow> 'o \<Rightarrow> 'r \<Rightarrow> bool \<Rightarrow> ('g, 'o, 'r) state" where
  "fresh c0 o0 r0 g0 =
     \<lparr>params = c0, mode = Training, grad_enabled = g0, grads = [], opt_state = o0,
      rng = r0, trace = []\<rparr>"

definition epochs :: nat where
  "epochs = 30"

definition cell13 ::
  "('g, 'o, 'r) torch \<Rightarrow> (nat \<Rightarrow> batch list) \<Rightarrow> (nat \<Rightarrow> batch list) \<Rightarrow> classifier \<Rightarrow> 'o \<Rightarrow> 'r
     \<Rightarrow> bool \<Rightarrow> error + ('g, 'o, 'r) state" where
  "cell13 T trainloader testloader c0 o0 r0 g0 =
     epochs13 T trainloader testloader [0..<epochs] (fresh c0 o0 r0 g0)"


section \<open>The second train-and-validate loop (dropout, accuracy and loss)\<close>

text \<open>
  The body of the validation loop. \<^verbatim>\<open>loss_accum = criterion(log_ps, labels)\<close> is an
  assignment: every batch replaces the value of the one before.
\<close>

definition val_step17 ::
  "('g, 'o, 'r) torch \<Rightarrow> batch \<Rightarrow> ('g, 'o, 'r) state \<times> real \<times> real
     \<Rightarrow> error + (('g, 'o, 'r) state \<times> real \<times> real)" where
  "val_step17 T b sal =
     (case sal of (s, accuracy_accum, loss_accum) \<Rightarrow>
      and_then (call_dropout T s (fst b)) (\<lambda>(log_ps, r).
      let s1 = s\<lparr>rng := r, trace := trace s @ [Forward ValPass (mode s) (grad_enabled s)]\<rparr> in
      and_then (nll_loss log_ps (snd b)) (\<lambda>loss.
      let s2 = s1\<lparr>trace := trace s1 @ [Criterion ValPass]\<rparr>;
          ps = exp_t log_ps in
      and_then (topk1 T ps) (\<lambda>(top_p, top_class).
      and_then (view_col (length top_class) (snd b)) (\<lambda>labels_v.
      let equals = eq_t top_class labels_v in
      Inr (s2, accuracy_accum + mean_t (float_t equals), loss))))))"

fun val_loop17 ::
  "('g, 'o, 'r) torch \<Rightarrow> batch list \<Rightarrow> ('g, 'o, 'r) state \<times> real \<times> real
     \<Rightarrow> error + (('g, 'o, 'r) state \<times> real \<times> real)" where
  "val_loop17 T [] sal = Inr sal"
| "val_loop17 T (b # bs) sal = and_then (val_step17 T b sal) (val_loop17 T bs)"

text \<open>
  The \<^verbatim>\<open>else\<close> branch: both accumulators start at 0; inside
  \<^verbatim>\<open>with torch.no_grad()\<close> come \<^verbatim>\<open>model.eval()\<close>, the validation loop and
  \<^verbatim>\<open>model.train()\<close>; then the two \<^verbatim>\<open>print\<close> statements, of
  \<^verbatim>\<open>accuracy_accum / len(testloader) * 100\<close> (with a percent sign) and of
  \<^verbatim>\<open>loss_accum / len(testloader) * 100\<close>.
\<close>

definition validate17 ::
  "('g, 'o, 'r) torch \<Rightarrow> batch list \<Rightarrow> ('g, 'o, 'r) state \<Rightarrow> error + ('g, 'o, 'r) state" where
  "validate17 T testloader s =
     (let prev = grad_enabled s;
          s1 = s\<lparr>grad_enabled := False, trace := trace s @ [NoGradEnter]\<rparr>;
          s2 = s1\<lparr>mode := Evaluation, trace := trace s1 @ [ModelEval]\<rparr> in
      and_then (val_loop17 T testloader (s2, 0, 0)) (\<lambda>(s3, accuracy_accum, loss_accum).
      let s4 = s3\<lparr>mode := Training, trace := trace s3 @ [ModelTrain]\<rparr>;
          s5 = s4\<lparr>grad_enabled := prev, trace := trace s4 @ [NoGradExit]\<rparr> in
      if length testloader = 0 then Inl ZeroDivisionError
      else
        let s6 = s5\<lparr>trace := trace s5 @
                    [PrintAccuracy (accuracy_accum / real (length testloader) * 100)]\<rparr>
        in Inr (s6\<lparr>trace := trace s6 @
                    [PrintLoss (loss_accum / real (length testloader) * 100)]\<rparr>)))"

definition epoch17 ::
  "('g, 'o, 'r) torch \<Rightarrow> batch list \<Rightarrow> batch list \<Rightarrow> ('g, 'o, 'r) state
     \<Rightarrow> error + ('g, 'o, 'r) state" where
  "epoch17 T trainloader testloader s =
     and_then (train_loop T (call_dropout T) trainloader (s, 0)) (\<lambda>(s1, running_loss).
     validate17 T testloader s1)"

fun epochs17 ::
  "('g, 'o, 'r) torch \<Rightarrow> (nat \<Rightarrow> batch list) \<Rightarrow> (nat \<Rightarrow> batch list) \<Rightarrow> nat list
     \<Rightarrow> ('g, 'o, 'r) state \<Rightarrow> error + ('g, 'o, 'r) state" where
  "epochs17 T trainloader testloader [] s = Inr s"
| "epochs17 T trainloader testloader (e # es) s =
     and_then (epoch17 T (trainloader e) (testloader e) s) (epochs17 T trainloader testloader es)"

definition cell17 ::
  "('g, 'o, 'r) torch \<Rightarrow> (nat \<Rightarrow> batch list) \<Rightarrow> (nat \<Rightarrow> batch list) \<Rightarrow> classifier \<Rightarrow> 'o \<Rightarrow> 'r
     \<Rightarrow> bool \<Rightarrow> error + ('g, 'o, 'r) state" where
  "cell17 T trainloader testloader c0 o0 r0 g0 =
     epochs17 T trainloader testloader [0..<epochs] (fresh c0 o0 r0 g0)"

section \<open>Inference on one example\<close>

text \<open>
  The last cell, on the model the second loop has trained: \<^verbatim>\<open>model.eval()\<close>; the first
  batch of a new iteration of the test loader (\<^verbatim>\<open>StopIteration\<close> if there is none);
  \<^verbatim>\<open>img = images[0]\<close>; \<^verbatim>\<open>img.view(1, 784)\<close>, which raises unless the image has
  784 pixels; the forward pass inside \<^verbatim>\<open>with torch.no_grad()\<close>;
  \<^verbatim>\<open>ps = torch.exp(output)\<close>; and the call of the plotting helper with the image and
  \<^verbatim>\<open>ps\<close>. The helper only draws; its call is recorded with its two arguments.
\<close>

definition cell19 ::
  "('g, 'o, 'r) torch \<Rightarrow> batch list \<Rightarrow> ('g, 'o, 'r) state \<Rightarrow> error + ('g, 'o, 'r) state" where
  "cell19 T testloader s =
     (let s1 = s\<lparr>mode := Evaluation, trace := trace s @ [ModelEval]\<rparr> in
      case testloader of
        [] \<Rightarrow> Inl StopIteration
      | b # _ \<Rightarrow>
         (case fst b of
            [] \<Rightarrow> Inl IndexError
          | img0 # _ \<Rightarrow>
             if length img0 \<noteq> 784 then Inl RuntimeError
             else
               let img = [img0];
                   prev = grad_enabled s1;
                   s2 = s1\<lparr>grad_enabled := False, trace := trace s1 @ [NoGradEnter]\<rparr> in
               and_then (call_dropout T s2 img) (\<lambda>(output, r).
               let s3 = s2\<lparr>rng := r,
                           trace := trace s2 @ [Forward Inference (mode s2) (grad_enabled s2)]\<rparr>;
                   s4 = s3\<lparr>grad_enabled := prev, trace := trace s3 @ [NoGradExit]\<rparr>;
                   ps = exp_t output
               in Inr (s4\<lparr>trace := trace s4 @ [ViewClassify img ps]\<rparr>))))"


section \<open>The validation loops as functions of the parameters\<close>

text \<open>
  The four statements of the validation body that turn log-probabilities and labels into
  the batch's accuracy, and the two validation loops read as functions of the parameters
  alone. The lemmas below show that the loops compute exactly these.
\<close>

definition batch_accuracy :: "('g, 'o, 'r) torch \<Rightarrow> mat \<Rightarrow> nat list \<Rightarrow> error + real" where
  "batch_accuracy T log_ps labels =
     and_then (topk1 T (exp_t log_ps)) (\<lambda>(top_p, top_class).
     and_then (view_col (length top_class) labels) (\<lambda>labels_v.
     Inr (mean_t (float_t (eq_t top_class labels_v)))))"

fun val_results13 ::
  "('g, 'o, 'r) torch \<Rightarrow> classifier \<Rightarrow> batch list \<Rightarrow> real \<Rightarrow> error + real" where
  "val_results13 T c [] a = Inr a"
| "val_results13 T c (b # bs) a =
     and_then (forward_plain c (fst b)) (\<lambda>log_ps.
     and_then (batch_accuracy T log_ps (snd b)) (\<lambda>acc.
     val_results13 T c bs (a + acc)))"

fun val_results17 ::
  "('g, 'o, 'r) torch \<Rightarrow> classifier \<Rightarrow> batch list \<Rightarrow> real \<times> real \<Rightarrow> error + (real \<times> real)" where
  "val_results17 T c [] al = Inr al"
| "val_results17 T c (b # bs) al =
     and_then (forward_plain c (fst b)) (\<lambda>log_ps.
     and_then (nll_loss log_ps (snd b)) (\<lambda>loss.
     and_then (batch_accuracy T log_ps (snd b)) (\<lambda>acc.
     val_results17 T c bs (fst al + acc, loss))))"

section \<open>Observations on the trace\<close>

text \<open>The events a run has added to the trace, and the figures it has printed.\<close>

definition events_since :: "('g, 'o, 'r) state \<Rightarrow> ('g, 'o, 'r) state \<Rightarrow> event list" where
  "events_since s s' = drop (length (trace s)) (trace s')"

definition new_events :: "('g, 'o, 'r) state \<Rightarrow> error + ('g, 'o, 'r) state \<Rightarrow> event list" where
  "new_events s res = (case res of Inl e \<Rightarrow> [] | Inr s' \<Rightarrow> events_since s s')"

fun printed_accuracies :: "event list \<Rightarrow> real list" where
  "printed_accuracies [] = []"
| "printed_accuracies (PrintAccuracy v # evs) = v # printed_accuracies evs"
| "printed_accuracies (ev # evs) = printed_accuracies evs"

fun printed_losses :: "event list \<Rightarrow> real list" where
  "printed_losses [] = []"
| "printed_losses (PrintLoss v # evs) = v # printed_losses evs"
| "printed_losses (ev # evs) = printed_losses evs"

text \<open>The mode flag and the gradient-tracking flag at the forward passes of one kind.\<close>

fun forward_modes :: "pass \<Rightarrow> event list \<Rightarrow> mode list" where
  "forward_modes p [] = []"
| "forward_modes p (Forward q m g # evs) =
     (if q = p then m # forward_modes p evs else forward_modes p evs)"
| "forward_modes p (ev # evs) = forward_modes p evs"

fun forward_grads :: "pass \<Rightarrow> event list \<Rightarrow> bool list" where
  "forward_grads p [] = []"
| "forward_grads p (Forward q m g # evs) =
     (if q = p then g # forward_grads p evs else forward_grads p evs)"
| "forward_grads p (ev # evs) = forward_grads p evs"

text \<open>The six library calls of one training step, as the trace shows them.\<close>

definition step_events :: "mode \<Rightarrow> event list" where
  "step_events m =
     [ZeroGrad, Forward TrainPass m True, Criterion TrainPass, Backward, OptimizerStep,
      AccumulateLoss]"

text \<open>The events of one whole epoch of either loop, given the numbers of training and
  validation minibatches, the mode flag at the start and the figures reported.\<close>

definition epoch13_events :: "nat \<Rightarrow> nat \<Rightarrow> mode \<Rightarrow> real \<Rightarrow> event list" where
  "epoch13_events n_train n_val m acc =
     concat (replicate n_train (step_events m)) @ [NoGradEnter]
       @ replicate n_val (Forward ValPass m False) @ [NoGradExit, PrintAccuracy (acc * 100)]"

definition epoch17_events :: "nat \<Rightarrow> nat \<Rightarrow> mode \<Rightarrow> real \<Rightarrow> real \<Rightarrow> event list" where
  "epoch17_events n_train n_val m acc loss =
     concat (replicate n_train (step_events m)) @ [NoGradEnter, ModelEval]
       @ concat (replicate n_val [Forward ValPass Evaluation False, Criterion ValPass])
       @ [ModelTrain, NoGradExit, PrintAccuracy (acc * 100),
          PrintLoss (loss / real n_val * 100)]"

section \<open>The specification's accuracy\<close>

text \<open>
  The accuracy of one minibatch in the words of the specification: the fraction of
  examples whose top-1 predicted class is the true label. \<open>fraction_where P\<close> is the
  fraction of the examples of a batch (a row of log-probabilities with its label) that
  satisfy \<open>P\<close>. In \<open>correct_fraction\<close> the predicted class is the class of highest
  probability (the exponential of the log-probability) that the library takes. Two
  fractions that do not depend on the library's choice stand beside it: \<open>top_fraction\<close>
  counts the examples whose true label is a class of highest probability, and
  \<open>sole_top_fraction\<close> those whose true label is the only such class. \<open>log_probs\<close> is
  the model's forward pass in evaluation mode; \<open>mean_over\<close> is the sum of a per-batch
  figure divided by the number of batches. \<open>no_ties\<close> says that no example of the
  source has two classes of equal highest probability.
\<close>

definition fraction_where :: "(vec \<Rightarrow> nat \<Rightarrow> bool) \<Rightarrow> mat \<Rightarrow> nat list \<Rightarrow> real" where
  "fraction_where P log_ps labels =
     real (length (filter (\<lambda>(row, y). P row y) (zip log_ps labels))) / real (length labels)"

definition correct_fraction :: "('g, 'o, 'r) torch \<Rightarrow> mat \<Rightarrow> nat list \<Rightarrow> real" where
  "correct_fraction T log_ps labels =
     fraction_where (\<lambda>row y. topk_pick T (map exp row) = y) log_ps labels"

definition top_fraction :: "mat \<Rightarrow> nat list \<Rightarrow> real" where
  "top_fraction log_ps labels = fraction_where (\<lambda>row y. is_top_index (map exp row) y) log_ps labels"

definition sole_top_fraction :: "mat \<Rightarrow> nat list \<Rightarrow> real" where
  "sole_top_fraction log_ps labels =
     fraction_where (\<lambda>row y. top_classes (map exp row) = [y]) log_ps labels"

definition log_probs :: "classifier \<Rightarrow> mat \<Rightarrow> mat" where
  "log_probs c x = (case forward_plain c x of Inl e \<Rightarrow> [] | Inr y \<Rightarrow> y)"

definition mean_over :: "classifier \<Rightarrow> (mat \<Rightarrow> nat list \<Rightarrow> real) \<Rightarrow> batch list \<Rightarrow> real" where
  "mean_over c f bs = sum_list (map (\<lambda>b. f (log_probs c (fst b)) (snd b)) bs) / real (length bs)"

definition mean_accuracy :: "('g, 'o, 'r) torch \<Rightarrow> classifier \<Rightarrow> batch list \<Rightarrow> real" where
  "mean_accuracy T c bs = mean_over c (correct_fraction T) bs"

definition mean_top_accuracy :: "classifier \<Rightarrow> batch list \<Rightarrow> real" where
  "mean_top_accuracy c bs = mean_over c top_fraction bs"

definition mean_sole_top_accuracy :: "classifier \<Rightarrow> batch list \<Rightarrow> real" where
  "mean_sole_top_accuracy c bs = mean_over c sole_top_fraction bs"

definition no_ties :: "classifier \<Rightarrow> batch list \<Rightarrow> bool" where
  "no_ties c bs =
     list_all (\<lambda>b. list_all (\<lambda>row. length (top_classes (map exp row)) = 1) (log_probs c (fst b))) bs"

text \<open>The loss of the last minibatch of a validation source, for the given parameters.\<close>

definition final_batch_loss :: "classifier \<Rightarrow> batch list \<Rightarrow> real" where
  "final_batch_loss c bs =
     (case and_then (forward_plain c (fst (last bs))) (\<lambda>log_ps. nll_loss log_ps (snd (last bs))) of
        Inl e \<Rightarrow> 0
      | Inr loss \<Rightarrow> loss)"

section \<open>What one training step is to do\<close>

text \<open>
  The specification's six actions for one training minibatch \<open>b\<close>, between the state
  and running loss before it and after it: with the accumulated gradients cleared, the
  forward pass gives \<open>log_ps\<close>, whose rows are log-probabilities (their exponentials sum
  to 1); the criterion gives \<open>loss\<close> for them and the labels; back-propagation leaves
  the gradient of this minibatch alone in the parameters; one optimizer step turns the
  parameters and the optimizer state of before into those of after, with that gradient;
  the loss is added to the running loss; and the trace has grown by the six calls, in this
  order.
\<close>

definition performs ::
  "('g, 'o, 'r) torch \<Rightarrow> (('g, 'o, 'r) state \<Rightarrow> mat \<Rightarrow> error + (mat \<times> 'r)) \<Rightarrow> batch
     \<Rightarrow> ('g, 'o, 'r) state \<times> real \<Rightarrow> ('g, 'o, 'r) state \<times> real \<Rightarrow> mat \<Rightarrow> real \<Rightarrow> bool" where
  "performs T model b before after log_ps loss \<longleftrightarrow>
       model ((fst before)\<lparr>grads := [], trace := trace (fst before) @ [ZeroGrad]\<rparr>) (fst b)
         = Inr (log_ps, rng (fst after))
     \<and> list_all (\<lambda>row. sum_list (map exp row) = 1) log_ps
     \<and> nll_loss log_ps (snd b) = Inr loss
     \<and> grads (fst after)
         = [autograd T (params (fst before)) (mode (fst before)) (rng (fst before)) b]
     \<and> (params (fst after), opt_state (fst after))
         = adam_step T (opt_state (fst before)) (params (fst before)) (grads (fst after))
     \<and> snd after = snd before + loss
     \<and> trace (fst after) = trace (fst before) @
         [ZeroGrad, Forward TrainPass (mode (fst before)) True, Criterion TrainPass, Backward,
          OptimizerStep, AccumulateLoss]"

section \<open>Two small concrete runs\<close>

text \<open>
  A blank 28-by-28 image, minibatches of one blank image with a given label, and a library
  whose optimizer leaves the parameters alone, whose generator always keeps every unit,
  and whose \<^verbatim>\<open>topk\<close> takes the first of equal maxima. Two models with the layer sizes
  of \<^verbatim>\<open>__init__\<close> and all weights zero: \<open>zero_classifier\<close> has all biases zero as
  well, so it gives every class the probability 1/10; \<open>peak_classifier\<close> has the bias 1
  on output 8, so class 8 alone has the highest probability on every image and no choice
  among maxima arises.
\<close>

definition zero_linear :: "nat \<Rightarrow> nat \<Rightarrow> linear" where
  "zero_linear n_in n_out =
     \<lparr>in_features = n_in, weight = replicate n_out (replicate n_in 0), bias = replicate n_out 0\<rparr>"

definition bias_classifier :: "vec \<Rightarrow> classifier" where
  "bias_classifier b =
     \<lparr>fc1 = zero_linear 784 256, fc2 = zero_linear 256 128, fc3 = zero_linear 128 64,
      fc4 = \<lparr>in_features = 64, weight = replicate 10 (replicate 64 0), bias = b\<rparr>\<rparr>"

definition zero_classifier :: classifier where
  "zero_classifier =
     \<lparr>fc1 = zero_linear 784 256, fc2 = zero_linear 256 128, fc3 = zero_linear 128 64,
      fc4 = zero_linear 64 10\<rparr>"

definition peak_bias :: vec where
  "peak_bias = [0, 0, 0, 0, 0, 0, 0, 0, 1, 0]"

definition peak_classifier :: classifier where
  "peak_classifier = bias_classifier peak_bias"

definition blank_image :: vec where
  "blank_image = replicate 784 0"

definition blank_batch :: "nat \<Rightarrow> batch" where
  "blank_batch y = ([blank_image], [y])"

definition still_torch :: "(unit, unit, unit) torch" where
  "still_torch =
     \<lparr>autograd = (\<lambda>c m r b. ()), adam_step = (\<lambda>os c gs. (c, os)),
      bernoulli = (\<lambda>r shape. (map (\<lambda>n. replicate n True) shape, r)),
      tie_choice = (\<lambda>row. 0)\<rparr>"

definition still_state :: "(unit, unit, unit) state" where
  "still_state = fresh zero_classifier () () True"

definition peak_state :: "(unit, unit, unit) state" where
  "peak_state = fresh peak_classifier () () True"

definition still_train :: "nat \<Rightarrow> batch list" where
  "still_train e = [blank_batch 1]"

definition still_test :: "nat \<Rightarrow> batch list" where
  "still_test e = [blank_batch 0, blank_batch 3]"

definition peak_test :: "nat \<Rightarrow> batch list" where
  "peak_test e = [blank_batch 8, blank_batch 3]"


section \<open>Basic facts\<close>

lemma and_then_Inr [simp]: "and_then (Inr x) f = f x"
  by (simp add: and_then_def)

lemma and_then_Inl [simp]: "and_then (Inl e) f = Inl e"
  by (simp add: and_then_def)

lemma and_then_eq_Inr:
  "and_then m f = Inr y \<longleftrightarrow> (\<exists>x. m = Inr x \<and> f x = Inr y)"
  by (cases m) simp_all

lemma forward_dropout_eval:
  "forward_dropout bern c Evaluation r x = and_then (forward_plain c x) (\<lambda>y. Inr (y, r))"
  by (simp add: forward_dropout_def forward_plain_def dropout_def and_then_def split: sum.splits)

section \<open>The class that topk takes\<close>

text \<open>Whatever the library's choice among equal maxima, the index taken holds the largest
  value of the row; where one class alone holds it, that class is taken.\<close>

lemma in_top_classes: "k \<in> set (top_classes row) \<longleftrightarrow> is_top_index row k"
  by (auto simp: top_classes_def is_top_index_def)

lemma top_classes_nonempty:
  assumes "row \<noteq> []"
  shows "top_classes row \<noteq> []"
proof -
  from assms have "Max (set row) \<in> set row"
    by (intro Max_in) simp_all
  then obtain k where k: "k < length row" "row ! k = Max (set row)"
    by (auto simp: in_set_conv_nth)
  then have "is_top_index row k"
    by (simp add: is_top_index_def list_all_iff)
  then have "k \<in> set (top_classes row)"
    by (simp add: in_top_classes)
  then show ?thesis by auto
qed

lemma topk_pick_top:
  assumes "row \<noteq> []"
  shows "is_top_index row (topk_pick T row)"
proof -
  from top_classes_nonempty [OF assms] have "0 < length (top_classes row)" by simp
  then have "tie_choice T row mod length (top_classes row) < length (top_classes row)"
    by simp
  then have "topk_pick T row \<in> set (top_classes row)"
    by (simp add: topk_pick_def)
  then show ?thesis by (simp add: in_top_classes)
qed

lemma topk_pick_sole: "top_classes row = [k] \<Longrightarrow> topk_pick T row = k"
  by (simp add: topk_pick_def)

lemma sole_top_iff:
  assumes "length (top_classes row) = 1"
  shows "topk_pick T row = y \<longleftrightarrow> is_top_index row y"
proof -
  from assms obtain k where k: "top_classes row = [k]"
    by (cases "top_classes row") auto
  then have "is_top_index row y \<longleftrightarrow> y = k"
    using in_top_classes [of y row] by auto
  with topk_pick_sole [OF k, of T] show ?thesis by auto
qed

section \<open>The validation loops read only the parameters\<close>

text \<open>
  Each validation loop computes exactly what the corresponding function of the parameters
  computes, and adds nothing to the state but trace events. In the dropout loop this rests
  on the evaluation mode: there the dropout model's forward pass is the plain one and
  leaves the generator alone.
\<close>

lemma val_step13_char:
  "val_step13 T b (s, a) =
     and_then (forward_plain (params s) (fst b)) (\<lambda>log_ps.
     and_then (batch_accuracy T log_ps (snd b)) (\<lambda>acc.
     Inr (s\<lparr>trace := trace s @ [Forward ValPass (mode s) (grad_enabled s)]\<rparr>, a + acc)))"
  by (simp add: val_step13_def call_plain_def batch_accuracy_def and_then_def Let_def
      split: sum.splits prod.splits)

lemma val_loop13_char:
  "val_loop13 T bs (s, a) =
     and_then (val_results13 T (params s) bs a) (\<lambda>a'.
     Inr (s\<lparr>trace := trace s @ replicate (length bs) (Forward ValPass (mode s) (grad_enabled s))\<rparr>, a'))"
proof (induction bs arbitrary: s a)
  case Nil
  then show ?case by simp
next
  case (Cons b bs)
  show ?case
  proof (cases "forward_plain (params s) (fst b)")
    case (Inl e)
    then show ?thesis by (simp add: val_step13_char)
  next
    case (Inr lp)
    show ?thesis
    proof (cases "batch_accuracy T lp (snd b)")
      case (Inl e)
      with Inr show ?thesis by (simp add: val_step13_char)
    next
      case acc: (Inr acc)
      with Inr show ?thesis
        by (simp add: val_step13_char Cons.IH replicate_append_same [symmetric])
    qed
  qed
qed

lemma validate13_char:
  "validate13 T bs s =
     and_then (val_results13 T (params s) bs 0) (\<lambda>a.
     if bs = [] then Inl ZeroDivisionError
     else Inr (s\<lparr>trace := trace s @ [NoGradEnter]
                 @ replicate (length bs) (Forward ValPass (mode s) False)
                 @ [NoGradExit, PrintAccuracy (a / real (length bs) * 100)]\<rparr>))"
  by (cases "val_results13 T (params s) bs 0") (simp_all add: validate13_def val_loop13_char Let_def)

lemma val_step17_char:
  "mode s = Evaluation \<Longrightarrow> val_step17 T b (s, a, l) =
     and_then (forward_plain (params s) (fst b)) (\<lambda>log_ps.
     and_then (nll_loss log_ps (snd b)) (\<lambda>loss.
     and_then (batch_accuracy T log_ps (snd b)) (\<lambda>acc.
     Inr (s\<lparr>trace := trace s @ [Forward ValPass Evaluation (grad_enabled s), Criterion ValPass]\<rparr>,
          a + acc, loss))))"
  by (simp add: val_step17_def call_dropout_def forward_dropout_eval batch_accuracy_def
      and_then_def Let_def split: sum.splits prod.splits)

lemma val_loop17_char:
  "mode s = Evaluation \<Longrightarrow> val_loop17 T bs (s, al) =
     and_then (val_results17 T (params s) bs al) (\<lambda>al'.
     Inr (s\<lparr>trace := trace s @ concat (replicate (length bs)
                 [Forward ValPass Evaluation (grad_enabled s), Criterion ValPass])\<rparr>, al'))"
proof (induction bs arbitrary: s al)
  case Nil
  then show ?case by simp
next
  case (Cons b bs)
  obtain a l where al: "al = (a, l)" by (cases al)
  show ?case
  proof (cases "forward_plain (params s) (fst b)")
    case (Inl e)
    with Cons.prems al show ?thesis by (simp add: val_step17_char)
  next
    case (Inr lp)
    show ?thesis
    proof (cases "nll_loss lp (snd b)")
      case (Inl e)
      with Inr Cons.prems al show ?thesis by (simp add: val_step17_char)
    next
      case loss: (Inr loss)
      show ?thesis
      proof (cases "batch_accuracy T lp (snd b)")
        case (Inl e)
        with Inr loss Cons.prems al show ?thesis by (simp add: val_step17_char)
      next
        case acc: (Inr acc)
        with Inr loss Cons.prems al show ?thesis
          by (simp add: val_step17_char Cons.IH)
      qed
    qed
  qed
qed

lemma validate17_char:
  "validate17 T bs s =
     and_then (val_results17 T (params s) bs (0, 0)) (\<lambda>al.
     if bs = [] then Inl ZeroDivisionError
     else Inr (s\<lparr>mode := Training,
                 trace := trace s @ [NoGradEnter, ModelEval]
                 @ concat (replicate (length bs) [Forward ValPass Evaluation False, Criterion ValPass])
                 @ [ModelTrain, NoGradExit, PrintAccuracy (fst al / real (length bs) * 100),
                    PrintLoss (snd al / real (length bs) * 100)]\<rparr>))"
  by (cases "val_results17 T (params s) bs (0, 0)")
     (simp_all add: validate17_def val_loop17_char Let_def split: prod.splits)

section \<open>The accuracy and the loss that the loops compute\<close>

lemma concat_float_eq:
  "length xs = length ys \<Longrightarrow>
     concat (float_t (eq_t (map (\<lambda>r. [f r]) xs) (map (\<lambda>y. [y]) ys))) =
     map (\<lambda>(r, y). if f r = y then 1 else 0) (zip xs ys)"
  by (induction xs ys rule: list_induct2) (simp_all add: float_t_def eq_t_def)

lemma sum_list_indicator:
  "sum_list (map (\<lambda>p. if P p then 1 else 0) zs) = real (length (filter P zs))"
  by (induction zs) simp_all

lemma batch_accuracy_shape:
  assumes "batch_accuracy T log_ps labels = Inr a"
  shows "length labels = length log_ps \<and> list_all (\<lambda>row. row \<noteq> []) log_ps"
  using assms
  by (auto simp: batch_accuracy_def topk1_def view_col_def exp_t_def list_all_iff
      and_then_eq_Inr split: if_splits)

lemma batch_accuracy_correct:
  assumes "batch_accuracy T log_ps labels = Inr a"
  shows "a = correct_fraction T log_ps labels"
proof -
  from assms have len: "length labels = length log_ps"
    and a: "a = mean_t (float_t (eq_t (map (\<lambda>row. [topk_pick T row]) (exp_t log_ps))
                   (map (\<lambda>y. [y]) labels)))"
    by (auto simp: batch_accuracy_def topk1_def view_col_def exp_t_def split: if_splits)
  have "length (exp_t log_ps) = length labels"
    using len by (simp add: exp_t_def)
  then have c: "concat (float_t (eq_t (map (\<lambda>row. [topk_pick T row]) (exp_t log_ps))
                   (map (\<lambda>y. [y]) labels)))
      = map (\<lambda>(r, y). if topk_pick T r = y then 1 else 0) (zip (exp_t log_ps) labels)"
    by (rule concat_float_eq)
  have z: "zip (exp_t log_ps) labels = map (\<lambda>(r, y). (map exp r, y)) (zip log_ps labels)"
    by (simp add: exp_t_def zip_map1)
  have m: "map (\<lambda>(r, y). if topk_pick T r = y then (1::real) else 0) (zip (exp_t log_ps) labels)
      = map (\<lambda>p. if (case p of (row, y) \<Rightarrow> topk_pick T (map exp row) = y) then 1 else 0)
          (zip log_ps labels)"
    unfolding z by (simp add: case_prod_unfold comp_def)
  show ?thesis
    unfolding a mean_t_def c m sum_list_indicator correct_fraction_def fraction_where_def
    by (simp add: len)
qed

lemma fraction_where_range:
  "0 \<le> fraction_where P log_ps labels \<and> fraction_where P log_ps labels \<le> 1"
proof -
  let ?n = "length (filter (\<lambda>(row, y). P row y) (zip log_ps labels))"
  have "?n \<le> length (zip log_ps labels)" by (rule length_filter_le)
  also have "\<dots> \<le> length labels" by simp
  finally have "real ?n \<le> real (length labels)" by simp
  then show ?thesis
    by (cases "length labels = 0") (simp_all add: fraction_where_def divide_le_eq_1)
qed

lemma length_filter_mono:
  "(\<And>x. x \<in> set xs \<Longrightarrow> P x \<Longrightarrow> Q x) \<Longrightarrow> length (filter P xs) \<le> length (filter Q xs)"
  by (induction xs) auto

lemma fraction_where_mono:
  assumes "\<And>row y. (row, y) \<in> set (zip log_ps labels) \<Longrightarrow> P row y \<Longrightarrow> Q row y"
  shows "fraction_where P log_ps labels \<le> fraction_where Q log_ps labels"
proof -
  have "length (filter (\<lambda>(row, y). P row y) (zip log_ps labels))
      \<le> length (filter (\<lambda>(row, y). Q row y) (zip log_ps labels))"
    by (rule length_filter_mono) (use assms in auto)
  then show ?thesis
    by (simp add: fraction_where_def divide_right_mono)
qed

lemma fraction_where_cong:
  assumes "\<And>row y. (row, y) \<in> set (zip log_ps labels) \<Longrightarrow> P row y \<longleftrightarrow> Q row y"
  shows "fraction_where P log_ps labels = fraction_where Q log_ps labels"
  using fraction_where_mono [of log_ps labels P Q] fraction_where_mono [of log_ps labels Q P] assms
  by fastforce

text \<open>Between the two fractions that ignore the library's choice, and equal to both where
  no example has two classes of equal highest probability.\<close>

lemma correct_fraction_bounds:
  assumes "list_all (\<lambda>row. row \<noteq> []) log_ps"
  shows "sole_top_fraction log_ps labels \<le> correct_fraction T log_ps labels
       \<and> correct_fraction T log_ps labels \<le> top_fraction log_ps labels"
proof
  show "sole_top_fraction log_ps labels \<le> correct_fraction T log_ps labels"
    unfolding sole_top_fraction_def correct_fraction_def
    by (rule fraction_where_mono) (simp add: topk_pick_sole)
next
  have "is_top_index (map exp row) y"
    if "(row, y) \<in> set (zip log_ps labels)" and "topk_pick T (map exp row) = y" for row y
  proof -
    from that(1) have "row \<in> set log_ps" by (rule set_zip_leftD)
    with assms have "map exp row \<noteq> []" by (simp add: list_all_iff)
    from topk_pick_top [OF this, of T] that(2) show ?thesis by simp
  qed
  then show "correct_fraction T log_ps labels \<le> top_fraction log_ps labels"
    unfolding top_fraction_def correct_fraction_def
    by (rule fraction_where_mono)
qed

lemma correct_fraction_no_ties:
  assumes "list_all (\<lambda>row. length (top_classes (map exp row)) = 1) log_ps"
  shows "correct_fraction T log_ps labels = top_fraction log_ps labels"
  unfolding top_fraction_def correct_fraction_def
proof (rule fraction_where_cong)
  fix row y
  assume "(row, y) \<in> set (zip log_ps labels)"
  then have "row \<in> set log_ps" by (rule set_zip_leftD)
  with assms have "length (top_classes (map exp row)) = 1" by (simp add: list_all_iff)
  then show "topk_pick T (map exp row) = y \<longleftrightarrow> is_top_index (map exp row) y"
    by (rule sole_top_iff)
qed

lemma log_probs_Inr: "forward_plain c x = Inr lp \<Longrightarrow> log_probs c x = lp"
  by (simp add: log_probs_def)


lemma val_results13_sum:
  "val_results13 T c bs a = Inr a' \<Longrightarrow>
     a' = a + sum_list (map (\<lambda>b. correct_fraction T (log_probs c (fst b)) (snd b)) bs)
     \<and> list_all (\<lambda>b. list_all (\<lambda>row. row \<noteq> []) (log_probs c (fst b))) bs"
proof (induction bs arbitrary: a)
  case Nil
  then show ?case by simp
next
  case (Cons b bs)
  from Cons.prems obtain lp acc where lp: "forward_plain c (fst b) = Inr lp"
    and acc: "batch_accuracy T lp (snd b) = Inr acc"
    and rest: "val_results13 T c bs (a + acc) = Inr a'"
    by (auto simp: and_then_eq_Inr)
  from Cons.IH [OF rest] batch_accuracy_correct [OF acc] batch_accuracy_shape [OF acc]
    log_probs_Inr [OF lp]
  show ?case by simp
qed

lemma val_results17_sum:
  "val_results17 T c bs al = Inr al' \<Longrightarrow>
     fst al' = fst al + sum_list (map (\<lambda>b. correct_fraction T (log_probs c (fst b)) (snd b)) bs)
     \<and> list_all (\<lambda>b. list_all (\<lambda>row. row \<noteq> []) (log_probs c (fst b))) bs"
proof (induction bs arbitrary: al)
  case Nil
  then show ?case by simp
next
  case (Cons b bs)
  from Cons.prems obtain lp loss acc where lp: "forward_plain c (fst b) = Inr lp"
    and acc: "batch_accuracy T lp (snd b) = Inr acc"
    and rest: "val_results17 T c bs (fst al + acc, loss) = Inr al'"
    by (auto simp: and_then_eq_Inr)
  from Cons.IH [OF rest] batch_accuracy_correct [OF acc] batch_accuracy_shape [OF acc]
    log_probs_Inr [OF lp]
  show ?case by simp
qed

lemma val_results17_last:
  "val_results17 T c bs al = Inr al' \<Longrightarrow> bs \<noteq> [] \<Longrightarrow>
     \<exists>lp. forward_plain c (fst (last bs)) = Inr lp \<and> nll_loss lp (snd (last bs)) = Inr (snd al')"
proof (induction bs arbitrary: al)
  case Nil
  then show ?case by simp
next
  case (Cons b bs)
  from Cons.prems obtain lp loss acc where lp: "forward_plain c (fst b) = Inr lp"
    and loss: "nll_loss lp (snd b) = Inr loss"
    and rest: "val_results17 T c bs (fst al + acc, loss) = Inr al'"
    by (auto simp: and_then_eq_Inr)
  show ?case
  proof (cases "bs = []")
    case True
    with rest lp loss show ?thesis by auto
  next
    case False
    with Cons.IH [OF rest] show ?thesis by simp
  qed
qed

lemma final_batch_loss_eq:
  "forward_plain c (fst (last bs)) = Inr lp \<Longrightarrow> nll_loss lp (snd (last bs)) = Inr l \<Longrightarrow>
     final_batch_loss c bs = l"
  by (simp add: final_batch_loss_def)

lemma mean_over_mono:
  assumes "\<And>b. b \<in> set bs \<Longrightarrow> f (log_probs c (fst b)) (snd b) \<le> g (log_probs c (fst b)) (snd b)"
  shows "mean_over c f bs \<le> mean_over c g bs"
proof -
  have "sum_list (map (\<lambda>b. f (log_probs c (fst b)) (snd b)) bs)
      \<le> sum_list (map (\<lambda>b. g (log_probs c (fst b)) (snd b)) bs)"
    by (rule sum_list_mono) (rule assms)
  then show ?thesis
    by (simp add: mean_over_def divide_right_mono)
qed

lemma mean_accuracy_bounds:
  assumes "list_all (\<lambda>b. list_all (\<lambda>row. row \<noteq> []) (log_probs c (fst b))) bs"
  shows "mean_sole_top_accuracy c bs \<le> mean_accuracy T c bs
       \<and> mean_accuracy T c bs \<le> mean_top_accuracy c bs"
  unfolding mean_sole_top_accuracy_def mean_accuracy_def mean_top_accuracy_def
  using assms by (auto simp: list_all_iff intro!: mean_over_mono correct_fraction_bounds [THEN conjunct1]
      correct_fraction_bounds [THEN conjunct2])

lemma mean_accuracy_no_ties:
  assumes "no_ties c bs"
  shows "mean_accuracy T c bs = mean_top_accuracy c bs"
proof -
  have "map (\<lambda>b. correct_fraction T (log_probs c (fst b)) (snd b)) bs
      = map (\<lambda>b. top_fraction (log_probs c (fst b)) (snd b)) bs"
    using assms by (auto simp: no_ties_def list_all_iff intro!: correct_fraction_no_ties)
  then show ?thesis
    unfolding mean_accuracy_def mean_top_accuracy_def mean_over_def by (rule arg_cong)
qed

lemma validate13_result:
  assumes "validate13 T bs s = Inr s'"
  shows "bs \<noteq> [] \<and>
         list_all (\<lambda>b. list_all (\<lambda>row. row \<noteq> []) (log_probs (params s) (fst b))) bs \<and>
         s' = s\<lparr>trace := trace s @ [NoGradEnter]
                 @ replicate (length bs) (Forward ValPass (mode s) False)
                 @ [NoGradExit, PrintAccuracy (mean_accuracy T (params s) bs * 100)]\<rparr>"
proof -
  from assms obtain a where a: "val_results13 T (params s) bs 0 = Inr a"
    and ne: "bs \<noteq> []"
    and s': "s' = s\<lparr>trace := trace s @ [NoGradEnter]
                 @ replicate (length bs) (Forward ValPass (mode s) False)
                 @ [NoGradExit, PrintAccuracy (a / real (length bs) * 100)]\<rparr>"
    by (auto simp: validate13_char and_then_eq_Inr split: if_splits)
  from val_results13_sum [OF a] have "a / real (length bs) = mean_accuracy T (params s) bs"
    and "list_all (\<lambda>b. list_all (\<lambda>row. row \<noteq> []) (log_probs (params s) (fst b))) bs"
    by (simp_all add: mean_accuracy_def mean_over_def)
  with ne s' show ?thesis by simp
qed

lemma validate17_result:
  assumes "validate17 T bs s = Inr s'"
  shows "bs \<noteq> [] \<and>
         list_all (\<lambda>b. list_all (\<lambda>row. row \<noteq> []) (log_probs (params s) (fst b))) bs \<and>
         s' = s\<lparr>mode := Training,
                 trace := trace s @ [NoGradEnter, ModelEval]
                 @ concat (replicate (length bs) [Forward ValPass Evaluation False, Criterion ValPass])
                 @ [ModelTrain, NoGradExit, PrintAccuracy (mean_accuracy T (params s) bs * 100),
                    PrintLoss (final_batch_loss (params s) bs / real (length bs) * 100)]\<rparr>"
proof -
  from assms obtain al where al: "val_results17 T (params s) bs (0, 0) = Inr al"
    and ne: "bs \<noteq> []"
    and s': "s' = s\<lparr>mode := Training,
                 trace := trace s @ [NoGradEnter, ModelEval]
                 @ concat (replicate (length bs) [Forward ValPass Evaluation False, Criterion ValPass])
                 @ [ModelTrain, NoGradExit, PrintAccuracy (fst al / real (length bs) * 100),
                    PrintLoss (snd al / real (length bs) * 100)]\<rparr>"
    by (auto simp: validate17_char and_then_eq_Inr split: if_splits)
  from val_results17_sum [OF al]
  have acc: "fst al / real (length bs) = mean_accuracy T (params s) bs"
    and rows: "list_all (\<lambda>b. list_all (\<lambda>row. row \<noteq> []) (log_probs (params s) (fst b))) bs"
    by (simp_all add: mean_accuracy_def mean_over_def)
  from val_results17_last [OF al ne] have "snd al = final_batch_loss (params s) bs"
    by (auto simp: final_batch_loss_eq)
  with acc rows ne s' show ?thesis by simp
qed

lemma validate17_final_loss:
  assumes "validate17 T bs s = Inr s'"
  shows "\<exists>log_ps. forward_plain (params s) (fst (last bs)) = Inr log_ps
           \<and> nll_loss log_ps (snd (last bs)) = Inr (final_batch_loss (params s) bs)"
proof -
  from assms obtain al where al: "val_results17 T (params s) bs (0, 0) = Inr al"
    and ne: "bs \<noteq> []"
    by (auto simp: validate17_char and_then_eq_Inr split: if_splits)
  from val_results17_last [OF al ne] show ?thesis
    by (auto simp: final_batch_loss_eq)
qed

lemma mean_accuracy_range: "0 \<le> mean_accuracy T c bs \<and> mean_accuracy T c bs \<le> 1"
proof -
  let ?f = "\<lambda>b. correct_fraction T (log_probs c (fst b)) (snd b)"
  have lo: "0 \<le> sum_list (map ?f bs)"
    by (rule sum_list_nonneg) (auto simp: correct_fraction_def fraction_where_range)
  have "sum_list (map ?f bs) \<le> sum_list (map (\<lambda>b. 1) bs)"
    by (rule sum_list_mono) (simp add: correct_fraction_def fraction_where_range)
  then have hi: "sum_list (map ?f bs) \<le> real (length bs)"
    by (simp add: sum_list_triv)
  from lo hi show ?thesis
    by (cases "length bs = 0") (simp_all add: mean_accuracy_def mean_over_def divide_le_eq_1)
qed

lemma percent_range: "0 \<le> mean_accuracy T c bs * 100 \<and> mean_accuracy T c bs * 100 \<le> 100"
  using mean_accuracy_range [of T c bs] by simp

section \<open>The training pass\<close>

lemma train_step_char:
  assumes "train_step T model b (s, rl) = Inr (s', rl')"
  shows "\<exists>log_ps r loss.
           model (s\<lparr>grads := [], trace := trace s @ [ZeroGrad]\<rparr>) (fst b) = Inr (log_ps, r)
         \<and> nll_loss log_ps (snd b) = Inr loss
         \<and> grad_enabled s
         \<and> s' = s\<lparr>rng := r,
                  grads := [autograd T (params s) (mode s) (rng s) b],
                  params := fst (adam_step T (opt_state s) (params s)
                                  [autograd T (params s) (mode s) (rng s) b]),
                  opt_state := snd (adam_step T (opt_state s) (params s)
                                  [autograd T (params s) (mode s) (rng s) b]),
                  trace := trace s @ step_events (mode s)\<rparr>
         \<and> rl' = rl + loss"
  using assms
  by (auto simp: train_step_def and_then_eq_Inr Let_def step_events_def split: if_splits)

lemma train_step_frame:
  assumes "train_step T model b (s, rl) = Inr (s', rl')"
  shows "mode s' = mode s \<and> grad_enabled s \<and> grad_enabled s'
         \<and> trace s' = trace s @ step_events (mode s)"
  using train_step_char [OF assms] by auto

lemma train_loop_frame:
  "train_loop T model bs (s, rl) = Inr (s', rl') \<Longrightarrow>
     mode s' = mode s \<and> grad_enabled s' = grad_enabled s
     \<and> trace s' = trace s @ concat (replicate (length bs) (step_events (mode s)))"
proof (induction bs arbitrary: s rl)
  case Nil
  then show ?case by simp
next
  case (Cons b bs)
  from Cons.prems obtain s1 rl1 where step: "train_step T model b (s, rl) = Inr (s1, rl1)"
    and rest: "train_loop T model bs (s1, rl1) = Inr (s', rl')"
    by (auto simp: and_then_eq_Inr)
  from train_step_frame [OF step] Cons.IH [OF rest] show ?case by simp
qed

section \<open>Traces of epochs and of runs\<close>

lemma events_since_append: "trace s' = trace s @ new \<Longrightarrow> events_since s s' = new"
  by (simp add: events_since_def)

lemma new_events_Inr: "res = Inr s' \<Longrightarrow> new_events s res = events_since s s'"
  by (simp add: new_events_def)

lemma new_events_eval:
  "res = Inr s' \<Longrightarrow> \<not> isl res \<and> new_events s res = events_since s s'"
  by (simp add: new_events_def)

lemma printed_accuracies_append:
  "printed_accuracies (xs @ ys) = printed_accuracies xs @ printed_accuracies ys"
  by (induction xs rule: printed_accuracies.induct) simp_all

lemma printed_losses_append:
  "printed_losses (xs @ ys) = printed_losses xs @ printed_losses ys"
  by (induction xs rule: printed_losses.induct) simp_all

lemma forward_modes_append:
  "forward_modes p (xs @ ys) = forward_modes p xs @ forward_modes p ys"
  by (induction p xs rule: forward_modes.induct) simp_all

lemma forward_grads_append:
  "forward_grads p (xs @ ys) = forward_grads p xs @ forward_grads p ys"
  by (induction p xs rule: forward_grads.induct) simp_all

lemmas observer_append =
  printed_accuracies_append printed_losses_append forward_modes_append forward_grads_append

lemma printed_accuracies_blocks:
  "printed_accuracies (concat (replicate n (step_events m))) = []"
  "printed_accuracies (replicate n (Forward p m g)) = []"
  "printed_accuracies (concat (replicate n [Forward p m g, Criterion p])) = []"
  by (induction n) (simp_all add: step_events_def)

lemma printed_losses_blocks:
  "printed_losses (concat (replicate n (step_events m))) = []"
  "printed_losses (replicate n (Forward p m g)) = []"
  "printed_losses (concat (replicate n [Forward p m g, Criterion p])) = []"
  by (induction n) (simp_all add: step_events_def)

lemma forward_modes_blocks:
  "forward_modes TrainPass (concat (replicate n (step_events m))) = replicate n m"
  "forward_modes ValPass (concat (replicate n (step_events m))) = []"
  "forward_modes p (replicate n (Forward p m g)) = replicate n m"
  "p \<noteq> q \<Longrightarrow> forward_modes p (replicate n (Forward q m g)) = []"
  "forward_modes p (concat (replicate n [Forward p m g, Criterion p])) = replicate n m"
  "p \<noteq> q \<Longrightarrow> forward_modes p (concat (replicate n [Forward q m g, Criterion q])) = []"
  by (induction n) (simp_all add: step_events_def)

lemma forward_grads_blocks:
  "forward_grads TrainPass (concat (replicate n (step_events m))) = replicate n True"
  "forward_grads ValPass (concat (replicate n (step_events m))) = []"
  "forward_grads p (replicate n (Forward p m g)) = replicate n g"
  "p \<noteq> q \<Longrightarrow> forward_grads p (replicate n (Forward q m g)) = []"
  "forward_grads p (concat (replicate n [Forward p m g, Criterion p])) = replicate n g"
  "p \<noteq> q \<Longrightarrow> forward_grads p (concat (replicate n [Forward q m g, Criterion q])) = []"
  by (induction n) (simp_all add: step_events_def)

lemmas observer_blocks =
  printed_accuracies_blocks printed_losses_blocks forward_modes_blocks forward_grads_blocks

lemma length_step_blocks: "length (concat (replicate n (step_events m))) = 6 * n"
  by (induction n) (simp_all add: step_events_def)

lemma take_step_blocks:
  "take (6 * n) (concat (replicate n (step_events m)) @ rest) = concat (replicate n (step_events m))"
  by (simp add: length_step_blocks)

lemma epoch13_events_printed:
  "printed_accuracies (epoch13_events nt nv m acc) = [acc * 100]"
  by (simp add: epoch13_events_def observer_append observer_blocks)

lemma epoch17_events_printed:
  "printed_accuracies (epoch17_events nt nv m acc l) = [acc * 100]"
  "printed_losses (epoch17_events nt nv m acc l) = [l / real nv * 100]"
  by (simp_all add: epoch17_events_def observer_append observer_blocks)

lemma epoch13_events_flags:
  "forward_modes ValPass (epoch13_events nt nv m acc) = replicate nv m"
  "forward_modes TrainPass (epoch13_events nt nv m acc) = replicate nt m"
  "forward_grads ValPass (epoch13_events nt nv m acc) = replicate nv False"
  "forward_grads TrainPass (epoch13_events nt nv m acc) = replicate nt True"
  by (simp_all add: epoch13_events_def observer_append observer_blocks)

lemma epoch17_events_flags:
  "forward_modes ValPass (epoch17_events nt nv m acc l) = replicate nv Evaluation"
  "forward_modes TrainPass (epoch17_events nt nv m acc l) = replicate nt m"
  "forward_grads ValPass (epoch17_events nt nv m acc l) = replicate nv False"
  "forward_grads TrainPass (epoch17_events nt nv m acc l) = replicate nt True"
  by (simp_all add: epoch17_events_def observer_append observer_blocks)

lemma epoch13_events_obs:
  "set (forward_modes ValPass (epoch13_events nt nv m (mean_accuracy T c bs))) \<subseteq> {m}"
  "set (forward_modes TrainPass (epoch13_events nt nv m (mean_accuracy T c bs))) \<subseteq> {m}"
  "set (forward_grads ValPass (epoch13_events nt nv m (mean_accuracy T c bs))) \<subseteq> {False}"
  "set (forward_grads TrainPass (epoch13_events nt nv m (mean_accuracy T c bs))) \<subseteq> {True}"
  "set (printed_accuracies (epoch13_events nt nv m (mean_accuracy T c bs))) \<subseteq> {0..100}"
  using percent_range [of T c bs]
  by (auto simp: epoch13_events_def observer_append observer_blocks)

lemma epoch13_events_no_eval: "ModelEval \<notin> set (epoch13_events nt nv m acc)"
  by (auto simp: epoch13_events_def step_events_def)

lemma epoch17_events_obs:
  "set (forward_modes ValPass (epoch17_events nt nv m (mean_accuracy T c bs) l)) \<subseteq> {Evaluation}"
  "set (forward_modes TrainPass (epoch17_events nt nv m (mean_accuracy T c bs) l)) \<subseteq> {m}"
  "set (forward_grads ValPass (epoch17_events nt nv m (mean_accuracy T c bs) l)) \<subseteq> {False}"
  "set (forward_grads TrainPass (epoch17_events nt nv m (mean_accuracy T c bs) l)) \<subseteq> {True}"
  "set (printed_accuracies (epoch17_events nt nv m (mean_accuracy T c bs) l)) \<subseteq> {0..100}"
  using percent_range [of T c bs]
  by (auto simp: epoch17_events_def observer_append observer_blocks)

lemma epoch13_trace:
  assumes "epoch13 T tr vb s = Inr s'"
  shows "\<exists>s1 rl. train_loop T call_plain tr (s, 0) = Inr (s1, rl) \<and> vb \<noteq> []
           \<and> mode s' = mode s \<and> grad_enabled s' = grad_enabled s
           \<and> trace s' = trace s @ epoch13_events (length tr) (length vb) (mode s)
                 (mean_accuracy T (params s1) vb)"
proof -
  from assms obtain s1 rl where tl: "train_loop T call_plain tr (s, 0) = Inr (s1, rl)"
    and v: "validate13 T vb s1 = Inr s'"
    by (auto simp: epoch13_def and_then_eq_Inr)
  from train_loop_frame [OF tl] validate13_result [OF v] tl show ?thesis
    by (auto simp: epoch13_events_def)
qed

lemma epoch17_trace:
  assumes "epoch17 T tr vb s = Inr s'"
  shows "\<exists>s1 rl. train_loop T (call_dropout T) tr (s, 0) = Inr (s1, rl) \<and> vb \<noteq> []
           \<and> mode s' = Training \<and> grad_enabled s' = grad_enabled s
           \<and> trace s' = trace s @ epoch17_events (length tr) (length vb) (mode s)
                 (mean_accuracy T (params s1) vb) (final_batch_loss (params s1) vb)"
proof -
  from assms obtain s1 rl where tl: "train_loop T (call_dropout T) tr (s, 0) = Inr (s1, rl)"
    and v: "validate17 T vb s1 = Inr s'"
    by (auto simp: epoch17_def and_then_eq_Inr)
  from train_loop_frame [OF tl] validate17_result [OF v] tl show ?thesis
    by (auto simp: epoch17_events_def)
qed

lemma epochs13_inv:
  "epochs13 T trl tel es s = Inr s' \<Longrightarrow>
     mode s' = mode s \<and> grad_enabled s' = grad_enabled s \<and>
     (\<exists>new. trace s' = trace s @ new
        \<and> set (forward_modes ValPass new) \<subseteq> {mode s}
        \<and> set (forward_modes TrainPass new) \<subseteq> {mode s}
        \<and> set (forward_grads ValPass new) \<subseteq> {False}
        \<and> set (forward_grads TrainPass new) \<subseteq> {True}
        \<and> set (printed_accuracies new) \<subseteq> {0..100}
        \<and> length (printed_accuracies new) = length es
        \<and> ModelEval \<notin> set new)"
proof (induction es arbitrary: s)
  case Nil
  then show ?case by simp
next
  case (Cons e es)
  from Cons.prems obtain s1 where ep: "epoch13 T (trl e) (tel e) s = Inr s1"
    and rest: "epochs13 T trl tel es s1 = Inr s'"
    by (auto simp: and_then_eq_Inr)
  from epoch13_trace [OF ep] obtain s0 rl where
    "train_loop T call_plain (trl e) (s, 0) = Inr (s0, rl)" and
    m1: "mode s1 = mode s" and g1: "grad_enabled s1 = grad_enabled s"
    and t1: "trace s1 = trace s @ epoch13_events (length (trl e)) (length (tel e)) (mode s)
                 (mean_accuracy T (params s0) (tel e))"
    by blast
  from Cons.IH [OF rest] obtain new where
    m2: "mode s' = mode s1" and g2: "grad_enabled s' = grad_enabled s1"
    and t2: "trace s' = trace s1 @ new"
    and p2: "set (forward_modes ValPass new) \<subseteq> {mode s1}"
        "set (forward_modes TrainPass new) \<subseteq> {mode s1}"
        "set (forward_grads ValPass new) \<subseteq> {False}"
        "set (forward_grads TrainPass new) \<subseteq> {True}"
        "set (printed_accuracies new) \<subseteq> {0..100}"
        "length (printed_accuracies new) = length es"
        "ModelEval \<notin> set new"
    by blast
  let ?E = "epoch13_events (length (trl e)) (length (tel e)) (mode s)
                 (mean_accuracy T (params s0) (tel e))"
  have "trace s' = trace s @ (?E @ new)"
    using t1 t2 by simp
  moreover have "set (forward_modes ValPass (?E @ new)) \<subseteq> {mode s}"
    "set (forward_modes TrainPass (?E @ new)) \<subseteq> {mode s}"
    "set (forward_grads ValPass (?E @ new)) \<subseteq> {False}"
    "set (forward_grads TrainPass (?E @ new)) \<subseteq> {True}"
    "set (printed_accuracies (?E @ new)) \<subseteq> {0..100}"
    "length (printed_accuracies (?E @ new)) = length (e # es)"
    "ModelEval \<notin> set (?E @ new)"
    using p2 m1 epoch13_events_obs [of "length (trl e)" "length (tel e)" "mode s" T "params s0" "tel e"]
      epoch13_events_no_eval [of "length (trl e)" "length (tel e)" "mode s"
        "mean_accuracy T (params s0) (tel e)"]
    by (simp_all add: observer_append epoch13_events_printed)
  ultimately show ?case using m1 m2 g1 g2 by metis
qed

lemma epochs17_inv:
  "epochs17 T trl tel es s = Inr s' \<Longrightarrow>
     mode s' \<in> {mode s, Training} \<and> grad_enabled s' = grad_enabled s \<and>
     (\<exists>new. trace s' = trace s @ new
        \<and> set (forward_modes ValPass new) \<subseteq> {Evaluation}
        \<and> set (forward_modes TrainPass new) \<subseteq> {mode s, Training}
        \<and> set (forward_grads ValPass new) \<subseteq> {False}
        \<and> set (forward_grads TrainPass new) \<subseteq> {True}
        \<and> set (printed_accuracies new) \<subseteq> {0..100}
        \<and> length (printed_accuracies new) = length es)"
proof (induction es arbitrary: s)
  case Nil
  then show ?case by simp
next
  case (Cons e es)
  from Cons.prems obtain s1 where ep: "epoch17 T (trl e) (tel e) s = Inr s1"
    and rest: "epochs17 T trl tel es s1 = Inr s'"
    by (auto simp: and_then_eq_Inr)
  from epoch17_trace [OF ep] obtain s0 rl where
    "train_loop T (call_dropout T) (trl e) (s, 0) = Inr (s0, rl)" and
    m1: "mode s1 = Training" and g1: "grad_enabled s1 = grad_enabled s"
    and t1: "trace s1 = trace s @ epoch17_events (length (trl e)) (length (tel e)) (mode s)
                 (mean_accuracy T (params s0) (tel e)) (final_batch_loss (params s0) (tel e))"
    by blast
  from Cons.IH [OF rest] obtain new where
    m2: "mode s' \<in> {mode s1, Training}" and g2: "grad_enabled s' = grad_enabled s1"
    and t2: "trace s' = trace s1 @ new"
    and p2: "set (forward_modes ValPass new) \<subseteq> {Evaluation}"
        "set (forward_modes TrainPass new) \<subseteq> {mode s1, Training}"
        "set (forward_grads ValPass new) \<subseteq> {False}"
        "set (forward_grads TrainPass new) \<subseteq> {True}"
        "set (printed_accuracies new) \<subseteq> {0..100}"
        "length (printed_accuracies new) = length es"
    by blast
  let ?E = "epoch17_events (length (trl e)) (length (tel e)) (mode s)
                 (mean_accuracy T (params s0) (tel e)) (final_batch_loss (params s0) (tel e))"
  have "trace s' = trace s @ (?E @ new)"
    using t1 t2 by simp
  moreover have "set (forward_modes ValPass (?E @ new)) \<subseteq> {Evaluation}"
    "set (forward_modes TrainPass (?E @ new)) \<subseteq> {mode s, Training}"
    "set (forward_grads ValPass (?E @ new)) \<subseteq> {False}"
    "set (forward_grads TrainPass (?E @ new)) \<subseteq> {True}"
    "set (printed_accuracies (?E @ new)) \<subseteq> {0..100}"
    "length (printed_accuracies (?E @ new)) = length (e # es)"
    using p2 m1
      epoch17_events_obs [of "length (trl e)" "length (tel e)" "mode s" T "params s0" "tel e"
        "final_batch_loss (params s0) (tel e)"]
    by (auto simp: observer_append epoch17_events_printed)
  moreover have "mode s' \<in> {mode s, Training}"
    using m1 m2 by simp
  ultimately show ?case using g1 g2 by metis
qed

lemma epochs13_flags:
  "epochs13 T trl tel es s = Inr s' \<Longrightarrow>
     \<exists>new. trace s' = trace s @ new
        \<and> forward_modes ValPass new = replicate (length (concat (map tel es))) (mode s)
        \<and> forward_modes TrainPass new = replicate (length (concat (map trl es))) (mode s)
        \<and> forward_grads ValPass new = replicate (length (concat (map tel es))) False
        \<and> forward_grads TrainPass new = replicate (length (concat (map trl es))) True"
proof (induction es arbitrary: s)
  case Nil
  then show ?case by simp
next
  case (Cons e es)
  from Cons.prems obtain s1 where ep: "epoch13 T (trl e) (tel e) s = Inr s1"
    and rest: "epochs13 T trl tel es s1 = Inr s'"
    by (auto simp: and_then_eq_Inr)
  from epoch13_trace [OF ep] obtain s0 rl where
    "train_loop T call_plain (trl e) (s, 0) = Inr (s0, rl)" and
    m1: "mode s1 = mode s"
    and t1: "trace s1 = trace s @ epoch13_events (length (trl e)) (length (tel e)) (mode s)
                 (mean_accuracy T (params s0) (tel e))"
    by blast
  from Cons.IH [OF rest] obtain new where
    t2: "trace s' = trace s1 @ new"
    and p2: "forward_modes ValPass new = replicate (length (concat (map tel es))) (mode s1)"
        "forward_modes TrainPass new = replicate (length (concat (map trl es))) (mode s1)"
        "forward_grads ValPass new = replicate (length (concat (map tel es))) False"
        "forward_grads TrainPass new = replicate (length (concat (map trl es))) True"
    by blast
  let ?E = "epoch13_events (length (trl e)) (length (tel e)) (mode s)
                 (mean_accuracy T (params s0) (tel e))"
  have "trace s' = trace s @ (?E @ new)"
    using t1 t2 by simp
  moreover have
    "forward_modes ValPass (?E @ new) = replicate (length (concat (map tel (e # es)))) (mode s)"
    "forward_modes TrainPass (?E @ new) = replicate (length (concat (map trl (e # es)))) (mode s)"
    "forward_grads ValPass (?E @ new) = replicate (length (concat (map tel (e # es)))) False"
    "forward_grads TrainPass (?E @ new) = replicate (length (concat (map trl (e # es)))) True"
    using p2 m1 by (simp_all add: observer_append epoch13_events_flags replicate_add)
  ultimately show ?case by blast
qed

lemma epochs17_flags:
  "epochs17 T trl tel es s = Inr s' \<Longrightarrow>
     \<exists>new. trace s' = trace s @ new
        \<and> forward_modes ValPass new = replicate (length (concat (map tel es))) Evaluation
        \<and> (mode s = Training \<longrightarrow>
             forward_modes TrainPass new = replicate (length (concat (map trl es))) Training)
        \<and> forward_grads ValPass new = replicate (length (concat (map tel es))) False
        \<and> forward_grads TrainPass new = replicate (length (concat (map trl es))) True"
proof (induction es arbitrary: s)
  case Nil
  then show ?case by simp
next
  case (Cons e es)
  from Cons.prems obtain s1 where ep: "epoch17 T (trl e) (tel e) s = Inr s1"
    and rest: "epochs17 T trl tel es s1 = Inr s'"
    by (auto simp: and_then_eq_Inr)
  from epoch17_trace [OF ep] obtain s0 rl where
    "train_loop T (call_dropout T) (trl e) (s, 0) = Inr (s0, rl)" and
    m1: "mode s1 = Training"
    and t1: "trace s1 = trace s @ epoch17_events (length (trl e)) (length (tel e)) (mode s)
                 (mean_accuracy T (params s0) (tel e)) (final_batch_loss (params s0) (tel e))"
    by blast
  from Cons.IH [OF rest] m1 obtain new where
    t2: "trace s' = trace s1 @ new"
    and p2: "forward_modes ValPass new = replicate (length (concat (map tel es))) Evaluation"
        "forward_modes TrainPass new = replicate (length (concat (map trl es))) Training"
        "forward_grads ValPass new = replicate (length (concat (map tel es))) False"
        "forward_grads TrainPass new = replicate (length (concat (map trl es))) True"
    by blast
  let ?E = "epoch17_events (length (trl e)) (length (tel e)) (mode s)
                 (mean_accuracy T (params s0) (tel e)) (final_batch_loss (params s0) (tel e))"
  have "trace s' = trace s @ (?E @ new)"
    using t1 t2 by simp
  moreover have
    "forward_modes ValPass (?E @ new) = replicate (length (concat (map tel (e # es)))) Evaluation"
    "mode s = Training \<longrightarrow>
       forward_modes TrainPass (?E @ new) = replicate (length (concat (map trl (e # es)))) Training"
    "forward_grads ValPass (?E @ new) = replicate (length (concat (map tel (e # es)))) False"
    "forward_grads TrainPass (?E @ new) = replicate (length (concat (map trl (e # es)))) True"
    using p2 by (simp_all add: observer_append epoch17_events_flags replicate_add)
  ultimately show ?case by blast
qed

section \<open>Shapes and the softmax\<close>

lemma affine_length: "linear_shape n_in n_out l \<Longrightarrow> length (affine l x) = n_out"
  by (simp add: affine_def linear_shape_def)

lemma linear_fwd_shape:
  assumes "linear_shape n_in n_out l" and "list_all (\<lambda>r. length r = n_in) x"
  shows "\<exists>y. linear_fwd l x = Inr y \<and> length y = length x
           \<and> list_all (\<lambda>r. length r = n_out) y"
proof -
  from assms have "linear_fwd l x = Inr (map (affine l) x)"
    by (simp add: linear_fwd_def linear_shape_def)
  moreover have "list_all (\<lambda>r. length r = n_out) (map (affine l) x)"
    using assms(1) by (simp add: list_all_iff affine_length)
  ultimately show ?thesis by simp
qed

lemma relu_shape:
  "length (relu x) = length x"
  "list_all (\<lambda>r. length r = n) x \<Longrightarrow> list_all (\<lambda>r. length r = n) (relu x)"
  by (simp_all add: relu_def list_all_iff)

lemma forward_plain_shape:
  assumes "classifier_shape c" and "x \<noteq> []" and "list_all (\<lambda>r. length r = 784) x"
  shows "\<exists>h. forward_plain c x = Inr (log_softmax h) \<and> length h = length x
           \<and> list_all (\<lambda>r. length r = 10) h"
proof -
  from assms(1) have s1: "linear_shape 784 256 (fc1 c)" and s2: "linear_shape 256 128 (fc2 c)"
    and s3: "linear_shape 128 64 (fc3 c)" and s4: "linear_shape 64 10 (fc4 c)"
    by (simp_all add: classifier_shape_def)
  from assms(2) have v: "view_rows x = Inr x"
    by (simp add: view_rows_def)
  from linear_fwd_shape [OF s1 assms(3)] obtain h1 where
    h1: "linear_fwd (fc1 c) x = Inr h1" "length h1 = length x"
      "list_all (\<lambda>r. length r = 256) h1"
    by blast
  from linear_fwd_shape [OF s2 relu_shape(2) [OF h1(3)]] obtain h2 where
    h2: "linear_fwd (fc2 c) (relu h1) = Inr h2" "length h2 = length (relu h1)"
      "list_all (\<lambda>r. length r = 128) h2"
    by blast
  from linear_fwd_shape [OF s3 relu_shape(2) [OF h2(3)]] obtain h3 where
    h3: "linear_fwd (fc3 c) (relu h2) = Inr h3" "length h3 = length (relu h2)"
      "list_all (\<lambda>r. length r = 64) h3"
    by blast
  from linear_fwd_shape [OF s4 relu_shape(2) [OF h3(3)]] obtain h4 where
    h4: "linear_fwd (fc4 c) (relu h3) = Inr h4" "length h4 = length (relu h3)"
      "list_all (\<lambda>r. length r = 10) h4"
    by blast
  have "forward_plain c x = Inr (log_softmax h4)"
    by (simp add: forward_plain_def v h1 h2 h3 h4)
  moreover have "length h4 = length x"
    using h1(2) h2(2) h3(2) h4(2) by (simp add: relu_shape)
  ultimately show ?thesis using h4(3) by blast
qed

lemma sum_exp_pos: "row \<noteq> [] \<Longrightarrow> 0 < sum_list (map exp row :: real list)"
proof (induction row)
  case Nil
  then show ?case by simp
next
  case (Cons v row)
  have "0 \<le> sum_list (map exp row :: real list)"
    by (rule sum_list_nonneg) auto
  then show ?case by (simp add: add_pos_nonneg)
qed

lemma softmax_row_sums_to_one:
  assumes "row \<noteq> []"
  shows "sum_list (map exp (map (\<lambda>v. v - ln (sum_list (map exp row))) row)) = (1::real)"
proof -
  let ?S = "sum_list (map exp row)"
  have pos: "0 < ?S" using assms by (rule sum_exp_pos)
  have e: "exp (v - ln ?S) = exp v * inverse ?S" for v
    using pos by (simp add: exp_diff divide_inverse)
  have "sum_list (map exp (map (\<lambda>v. v - ln ?S) row))
      = sum_list (map (\<lambda>v. exp v * inverse ?S) row)"
    by (simp add: comp_def e)
  also have "\<dots> = sum_list (map exp row) * inverse ?S"
    by (simp add: sum_list_mult_const)
  also have "\<dots> = 1"
    using pos by simp
  finally show ?thesis .
qed

lemma forward_plain_single:
  assumes "classifier_shape c" and "length img0 = 784"
  shows "\<exists>out. forward_plain c [img0] = Inr [out] \<and> length out = 10
           \<and> sum_list (map exp out) = 1"
proof -
  from forward_plain_shape [OF assms(1), of "[img0]"] assms(2) obtain h where
    f: "forward_plain c [img0] = Inr (log_softmax h)" and "length h = 1"
    and r: "list_all (\<lambda>r. length r = 10) h"
    by auto
  then obtain h0 where h: "h = [h0]"
    by (cases h) auto
  with r have l: "length h0 = 10" by simp
  then have ne: "h0 \<noteq> []" by auto
  let ?out = "map (\<lambda>v. v - ln (sum_list (map exp h0))) h0"
  have "log_softmax h = [?out]"
    by (simp add: h log_softmax_def)
  with f l softmax_row_sums_to_one [OF ne] show ?thesis
    by auto
qed



section \<open>The training pass, minibatch by minibatch\<close>

lemma forward_plain_log_softmax: "forward_plain c x = Inr y \<Longrightarrow> \<exists>h. y = log_softmax h"
  by (auto simp: forward_plain_def and_then_eq_Inr)

lemma forward_dropout_log_softmax:
  assumes "forward_dropout bern c m r x = Inr (y, r')"
  shows "\<exists>h. y = log_softmax h"
proof -
  from assms obtain x0 h1 where h1: "linear_fwd (fc1 c) x0 = Inr h1"
    and a1: "(case dropout bern m r (relu h1) of (x1, r1) \<Rightarrow>
     and_then (linear_fwd (fc2 c) x1) (\<lambda>h2. case dropout bern m r1 (relu h2) of (x2, r2) \<Rightarrow>
     and_then (linear_fwd (fc3 c) x2) (\<lambda>h3. case dropout bern m r2 (relu h3) of (x3, r3) \<Rightarrow>
     and_then (linear_fwd (fc4 c) x3) (\<lambda>h4.
     Inr (log_softmax h4, r3))))) = Inr (y, r')"
    unfolding forward_dropout_def and_then_eq_Inr by blast
  obtain x1 r1 where d1: "dropout bern m r (relu h1) = (x1, r1)" by (cases "dropout bern m r (relu h1)")
  from a1 obtain h2 where a2: "(case dropout bern m r1 (relu h2) of (x2, r2) \<Rightarrow>
     and_then (linear_fwd (fc3 c) x2) (\<lambda>h3. case dropout bern m r2 (relu h3) of (x3, r3) \<Rightarrow>
     and_then (linear_fwd (fc4 c) x3) (\<lambda>h4.
     Inr (log_softmax h4, r3)))) = Inr (y, r')"
    unfolding d1 prod.case and_then_eq_Inr by blast
  obtain x2 r2 where d2: "dropout bern m r1 (relu h2) = (x2, r2)" by (cases "dropout bern m r1 (relu h2)")
  from a2 obtain h3 where a3: "(case dropout bern m r2 (relu h3) of (x3, r3) \<Rightarrow>
     and_then (linear_fwd (fc4 c) x3) (\<lambda>h4.
     Inr (log_softmax h4, r3))) = Inr (y, r')"
    unfolding d2 prod.case and_then_eq_Inr by blast
  obtain x3 r3 where d3: "dropout bern m r2 (relu h3) = (x3, r3)" by (cases "dropout bern m r2 (relu h3)")
  from a3 obtain h4 where "Inr (log_softmax h4, r3) = (Inr (y, r') :: error + (mat \<times> 'a))"
    unfolding d3 prod.case and_then_eq_Inr by blast
  then show ?thesis by auto
qed

lemma model_call_log_softmax:
  assumes "model = call_plain \<or> model = call_dropout T" and "model s x = Inr (y, r)"
  shows "\<exists>h. y = log_softmax h"
  using assms forward_plain_log_softmax forward_dropout_log_softmax
  by (fastforce simp: call_plain_def call_dropout_def and_then_eq_Inr)

lemma log_softmax_rows:
  assumes "list_all (\<lambda>row. row \<noteq> []) (log_softmax h)"
  shows "list_all (\<lambda>row. sum_list (map exp row) = 1) (log_softmax h)"
  using assms softmax_row_sums_to_one
  by (auto simp: log_softmax_def list_all_iff)

lemma nll_loss_rows:
  assumes "nll_loss log_ps labels = Inr loss"
  shows "list_all (\<lambda>row. row \<noteq> []) log_ps"
proof -
  from assms have len: "length log_ps = length labels"
    and ok: "list_all (\<lambda>(row, y). y < length row) (zip log_ps labels)"
    by (auto simp: nll_loss_def split: if_splits)
  have "row \<noteq> []" if "row \<in> set log_ps" for row
  proof -
    from in_set_impl_in_set_zip1 [OF len that] obtain y where "(row, y) \<in> set (zip log_ps labels)"
      by blast
    with ok have "y < length row" by (auto simp: list_all_iff)
    then show ?thesis by auto
  qed
  then show ?thesis by (simp add: list_all_iff)
qed

lemma train_step_performs:
  assumes "train_step T model b sr = Inr sr'" and "model = call_plain \<or> model = call_dropout T"
  shows "\<exists>log_ps loss. performs T model b sr sr' log_ps loss"
proof -
  obtain s rl s' rl' where sr: "sr = (s, rl)" "sr' = (s', rl')"
    by (cases sr, cases sr')
  from train_step_char [OF assms(1) [unfolded sr]] obtain log_ps r loss where
    fw: "model (s\<lparr>grads := [], trace := trace s @ [ZeroGrad]\<rparr>) (fst b) = Inr (log_ps, r)"
    and loss: "nll_loss log_ps (snd b) = Inr loss"
    and s': "s' = s\<lparr>rng := r,
                  grads := [autograd T (params s) (mode s) (rng s) b],
                  params := fst (adam_step T (opt_state s) (params s)
                                  [autograd T (params s) (mode s) (rng s) b]),
                  opt_state := snd (adam_step T (opt_state s) (params s)
                                  [autograd T (params s) (mode s) (rng s) b]),
                  trace := trace s @ step_events (mode s)\<rparr>"
    and rl': "rl' = rl + loss"
    by blast
  from model_call_log_softmax [OF assms(2) fw] obtain h where h: "log_ps = log_softmax h"
    by blast
  from nll_loss_rows [OF loss] have "list_all (\<lambda>row. sum_list (map exp row) = 1) log_ps"
    unfolding h by (rule log_softmax_rows)
  with fw loss s' rl' have "performs T model b (s, rl) (s', rl') log_ps loss"
    by (simp add: performs_def events_since_def step_events_def)
  then show ?thesis unfolding sr by blast
qed

lemma train_loop_chain:
  "train_loop T model bs sr = Inr sr' \<Longrightarrow>
     \<exists>ss. length ss = Suc (length bs) \<and> hd ss = sr \<and> last ss = sr'
        \<and> (\<forall>i<length bs. train_step T model (bs ! i) (ss ! i) = Inr (ss ! Suc i))"
proof (induction bs arbitrary: sr)
  case Nil
  then show ?case by (intro exI [of _ "[sr]"]) simp
next
  case (Cons b bs)
  from Cons.prems obtain sr1 where step: "train_step T model b sr = Inr sr1"
    and rest: "train_loop T model bs sr1 = Inr sr'"
    by (auto simp: and_then_eq_Inr)
  from Cons.IH [OF rest] obtain ss where len: "length ss = Suc (length bs)"
    and hd: "hd ss = sr1" and last: "last ss = sr'"
    and steps: "\<forall>i<length bs. train_step T model (bs ! i) (ss ! i) = Inr (ss ! Suc i)"
    by blast
  from len have ne: "ss \<noteq> []" by auto
  with hd have ss0: "ss ! 0 = sr1" by (simp add: hd_conv_nth)
  have "\<forall>i<length (b # bs). train_step T model ((b # bs) ! i) ((sr # ss) ! i)
      = Inr ((sr # ss) ! Suc i)"
  proof (intro allI impI)
    fix i
    assume "i < length (b # bs)"
    then show "train_step T model ((b # bs) ! i) ((sr # ss) ! i) = Inr ((sr # ss) ! Suc i)"
      using step steps ss0 by (cases i) simp_all
  qed
  with len last ne show ?case
    by (intro exI [of _ "sr # ss"]) simp
qed

lemma train_loop_performs:
  assumes "train_loop T model bs sr = Inr sr'" and "model = call_plain \<or> model = call_dropout T"
  shows "\<exists>ss. length ss = Suc (length bs) \<and> hd ss = sr \<and> last ss = sr'
        \<and> (\<forall>i<length bs. \<exists>log_ps loss. performs T model (bs ! i) (ss ! i) (ss ! Suc i) log_ps loss)"
proof -
  from train_loop_chain [OF assms(1)] obtain ss where "length ss = Suc (length bs)"
    "hd ss = sr" "last ss = sr'"
    and "\<forall>i<length bs. train_step T model (bs ! i) (ss ! i) = Inr (ss ! Suc i)"
    by blast
  with train_step_performs [OF _ assms(2)] show ?thesis
    by (intro exI [of _ ss]) blast
qed


section \<open>The concrete runs, evaluated\<close>

lemma dot_zero: "dot (replicate n 0) x = 0"
proof (induction n arbitrary: x)
  case 0
  then show ?case by (simp add: dot_def)
next
  case (Suc n)
  then show ?case by (cases x) (simp_all add: dot_def)
qed

lemma affine_zero: "affine (zero_linear n_in n_out) x = replicate n_out 0"
  by (simp add: affine_def zero_linear_def dot_zero)

lemma in_features_zero: "in_features (zero_linear n_in n_out) = n_in"
  by (simp add: zero_linear_def)

lemma linear_fwd_zero:
  "list_all (\<lambda>r. length r = n_in) x \<Longrightarrow>
     linear_fwd (zero_linear n_in n_out) x = Inr (map (\<lambda>r. replicate n_out 0) x)"
  by (simp add: linear_fwd_def affine_zero in_features_zero)

lemma relu_zero: "relu [replicate n 0] = [replicate n 0]"
  by (simp add: relu_def)

lemma map2_zero_rows:
  "length b = n \<Longrightarrow> map2 (\<lambda>w v. dot w x + v) (replicate n (replicate k 0)) b = b"
proof (induction n arbitrary: b)
  case 0
  then show ?case by simp
next
  case (Suc n)
  then show ?case by (cases b) (simp_all add: dot_zero)
qed

lemma linear_fwd_bias:
  "length b = 10 \<Longrightarrow>
     linear_fwd \<lparr>in_features = 64, weight = replicate 10 (replicate 64 0), bias = b\<rparr>
       [replicate 64 0] = Inr [b]"
  by (simp add: linear_fwd_def affine_def map2_zero_rows)

lemma zero_classifier_bias: "zero_classifier = bias_classifier (replicate 10 0)"
  by (simp add: zero_classifier_def bias_classifier_def zero_linear_def)

lemma log_softmax_zero: "log_softmax [replicate 10 0] = [replicate 10 (- ln 10)]"
  by (simp add: log_softmax_def sum_list_replicate)

lemma forward_plain_bias:
  "length b = 10 \<Longrightarrow> forward_plain (bias_classifier b) [blank_image] = Inr (log_softmax [b])"
  by (simp add: forward_plain_def view_rows_def blank_image_def bias_classifier_def
      linear_fwd_zero relu_zero linear_fwd_bias)

lemma forward_plain_zero:
  "forward_plain zero_classifier [blank_image] = Inr [replicate 10 (- ln 10)]"
  by (simp add: zero_classifier_bias forward_plain_bias log_softmax_zero)

lemma dropout_still:
  "dropout (bernoulli still_torch) m r [replicate n 0] = ([replicate n 0], r)"
  by (cases m) (simp_all add: dropout_def still_torch_def apply_mask_def)

lemma forward_dropout_bias:
  "length b = 10 \<Longrightarrow>
     forward_dropout (bernoulli still_torch) (bias_classifier b) m r [blank_image]
       = Inr (log_softmax [b], r)"
  by (simp add: forward_dropout_def view_rows_def blank_image_def bias_classifier_def
      linear_fwd_zero relu_zero dropout_still linear_fwd_bias)

lemma forward_dropout_zero:
  "forward_dropout (bernoulli still_torch) zero_classifier m r [blank_image]
     = Inr ([replicate 10 (- ln 10)], r)"
  by (simp add: zero_classifier_bias forward_dropout_bias log_softmax_zero)

lemma nll_loss_bias:
  "length b = 10 \<Longrightarrow> y < 10 \<Longrightarrow>
     nll_loss (log_softmax [b]) [y] = Inr (ln (sum_list (map exp b)) - b ! y)"
  by (simp add: nll_loss_def log_softmax_def)

lemma nll_loss_blank: "y < 10 \<Longrightarrow> nll_loss [replicate 10 (- ln 10)] [y] = Inr (ln 10)"
  by (simp add: nll_loss_def)

lemma batch_accuracy_bias:
  "length b = 10 \<Longrightarrow> \<exists>a. batch_accuracy T (log_softmax [b]) [y] = Inr a"
  by (auto simp: batch_accuracy_def topk1_def exp_t_def view_col_def log_softmax_def)

lemma val_results13_bias:
  assumes "length b = 10"
  shows "\<exists>a'. val_results13 T (bias_classifier b) (map blank_batch ys) a = Inr a'"
proof (induction ys arbitrary: a)
  case Nil
  then show ?case by simp
next
  case (Cons y ys)
  from batch_accuracy_bias [OF assms, of T y] obtain acc where
    "batch_accuracy T (log_softmax [b]) [y] = Inr acc"
    by blast
  with Cons [of "a + acc"] show ?case
    by (simp add: blank_batch_def forward_plain_bias [OF assms])
qed

lemma val_results17_bias:
  assumes "length b = 10" and "list_all (\<lambda>y. y < 10) ys"
  shows "\<exists>al'. val_results17 T (bias_classifier b) (map blank_batch ys) al = Inr al'"
  using assms(2)
proof (induction ys arbitrary: al)
  case Nil
  then show ?case by simp
next
  case (Cons y ys)
  from batch_accuracy_bias [OF assms(1), of T y] obtain acc where
    "batch_accuracy T (log_softmax [b]) [y] = Inr acc"
    by blast
  with Cons.prems Cons.IH [of "(fst al + acc, ln (sum_list (map exp b)) - b ! y)"] show ?case
    by (simp add: blank_batch_def forward_plain_bias [OF assms(1)] nll_loss_bias [OF assms(1)])
qed

lemma validate13_bias:
  assumes "params s = bias_classifier b" "length b = 10" "ys \<noteq> []"
  shows "\<exists>s'. validate13 T (map blank_batch ys) s = Inr s' \<and> params s' = bias_classifier b
           \<and> grad_enabled s' = grad_enabled s"
proof -
  from val_results13_bias [OF assms(2), of T ys 0] obtain a where
    "val_results13 T (bias_classifier b) (map blank_batch ys) 0 = Inr a"
    by blast
  with assms(1,3) show ?thesis
    by (simp add: validate13_char)
qed

lemma validate17_bias:
  assumes "params s = bias_classifier b" "length b = 10" "ys \<noteq> []" "list_all (\<lambda>y. y < 10) ys"
  shows "\<exists>s'. validate17 T (map blank_batch ys) s = Inr s' \<and> params s' = bias_classifier b
           \<and> grad_enabled s' = grad_enabled s"
proof -
  from val_results17_bias [OF assms(2,4), of T "(0, 0)"] obtain al where
    "val_results17 T (bias_classifier b) (map blank_batch ys) (0, 0) = Inr al"
    by blast
  with assms(1,3) show ?thesis
    by (simp add: validate17_char case_prod_unfold)
qed

lemma call_plain_bias:
  "params s = bias_classifier b \<Longrightarrow> length b = 10 \<Longrightarrow>
     call_plain s [blank_image] = Inr (log_softmax [b], rng s)"
  by (simp add: call_plain_def forward_plain_bias)

lemma call_dropout_bias:
  "params s = bias_classifier b \<Longrightarrow> length b = 10 \<Longrightarrow>
     call_dropout still_torch s [blank_image] = Inr (log_softmax [b], rng s)"
  by (simp add: call_dropout_def forward_dropout_bias)

lemma adam_step_still: "adam_step still_torch os c gs = (c, os)"
  by (simp add: still_torch_def)

lemma train_step_bias:
  assumes "params s = bias_classifier b" "length b = 10" "grad_enabled s" "y < 10"
    and "model = call_plain \<or> model = call_dropout still_torch"
  shows "\<exists>s'. train_step still_torch model (blank_batch y) (s, rl)
             = Inr (s', rl + (ln (sum_list (map exp b)) - b ! y))
           \<and> params s' = bias_classifier b \<and> grad_enabled s'"
  using assms
  by (auto simp: train_step_def blank_batch_def call_plain_bias call_dropout_bias nll_loss_bias
      Let_def adam_step_still)

lemma train_loop_bias:
  assumes "length b = 10" and "model = call_plain \<or> model = call_dropout still_torch"
  shows "params s = bias_classifier b \<Longrightarrow> grad_enabled s \<Longrightarrow> list_all (\<lambda>y. y < 10) ys \<Longrightarrow>
     \<exists>s' rl'. train_loop still_torch model (map blank_batch ys) (s, rl) = Inr (s', rl')
           \<and> params s' = bias_classifier b \<and> grad_enabled s'"
proof (induction ys arbitrary: s rl)
  case Nil
  then show ?case by simp
next
  case (Cons y ys)
  from Cons.prems have y: "y < 10" and ys: "list_all (\<lambda>y. y < 10) ys"
    by simp_all
  from train_step_bias [OF Cons.prems(1) assms(1) Cons.prems(2) y assms(2), of rl]
  obtain s1 where "train_step still_torch model (blank_batch y) (s, rl)
             = Inr (s1, rl + (ln (sum_list (map exp b)) - b ! y))"
    and p: "params s1 = bias_classifier b" and g: "grad_enabled s1"
    by blast
  with Cons.IH [OF p g ys, of "rl + (ln (sum_list (map exp b)) - b ! y)"] show ?case
    by simp
qed

lemma epoch13_bias:
  assumes "params s = bias_classifier b" "length b = 10" "grad_enabled s"
    and "list_all (\<lambda>y. y < 10) ys" "zs \<noteq> []"
  shows "\<exists>s'. epoch13 still_torch (map blank_batch ys) (map blank_batch zs) s = Inr s'
           \<and> params s' = bias_classifier b \<and> grad_enabled s'"
proof -
  from train_loop_bias [OF assms(2) _ assms(1,3,4), of call_plain 0]
  obtain s1 rl where
    "train_loop still_torch call_plain (map blank_batch ys) (s, 0) = Inr (s1, rl)"
    and p: "params s1 = bias_classifier b" and g: "grad_enabled s1"
    by auto
  with validate13_bias [OF p assms(2,5), of still_torch] show ?thesis
    by (auto simp: epoch13_def)
qed

lemma epoch17_bias:
  assumes "params s = bias_classifier b" "length b = 10" "grad_enabled s"
    and "list_all (\<lambda>y. y < 10) ys" "zs \<noteq> []" "list_all (\<lambda>y. y < 10) zs"
  shows "\<exists>s'. epoch17 still_torch (map blank_batch ys) (map blank_batch zs) s = Inr s'
           \<and> params s' = bias_classifier b \<and> grad_enabled s'"
proof -
  from train_loop_bias [OF assms(2) _ assms(1,3,4), of "call_dropout still_torch" 0]
  obtain s1 rl where
    "train_loop still_torch (call_dropout still_torch) (map blank_batch ys) (s, 0) = Inr (s1, rl)"
    and p: "params s1 = bias_classifier b" and g: "grad_enabled s1"
    by auto
  with validate17_bias [OF p assms(2,5,6), of still_torch] show ?thesis
    by (auto simp: epoch17_def)
qed

lemma loaders_blank:
  "still_train e = map blank_batch [1]" "still_test e = map blank_batch [0, 3]"
  "peak_test e = map blank_batch [8, 3]"
  by (simp_all add: still_train_def still_test_def peak_test_def)

lemma length_zero_bias: "length (replicate 10 (0::real)) = 10"
  by simp

lemma length_peak_bias: "length peak_bias = 10"
  by (simp add: peak_bias_def)

lemma train_step_still:
  assumes "params s = zero_classifier" "grad_enabled s" "y < 10"
    and "model = call_plain \<or> model = call_dropout still_torch"
  shows "\<exists>s'. train_step still_torch model (blank_batch y) (s, rl) = Inr (s', rl + ln 10)
           \<and> params s' = zero_classifier \<and> grad_enabled s'"
  using train_step_bias [OF assms(1) [unfolded zero_classifier_bias] length_zero_bias
      assms(2,3,4), of rl] assms(3)
  by (simp add: zero_classifier_bias sum_list_replicate)

lemma train_loop_still:
  assumes "params s = zero_classifier" "grad_enabled s"
    and "model = call_plain \<or> model = call_dropout still_torch"
  shows "\<exists>s' rl'. train_loop still_torch model (still_train e) (s, rl) = Inr (s', rl')
           \<and> params s' = zero_classifier \<and> grad_enabled s'"
  using train_loop_bias [OF length_zero_bias assms(3) assms(1) [unfolded zero_classifier_bias]
      assms(2), of "[1]" rl]
  by (simp add: zero_classifier_bias loaders_blank)

lemma train_loop_peak:
  assumes "params s = peak_classifier" "grad_enabled s"
    and "model = call_plain \<or> model = call_dropout still_torch"
  shows "\<exists>s' rl'. train_loop still_torch model (still_train e) (s, rl) = Inr (s', rl')
           \<and> params s' = peak_classifier \<and> grad_enabled s'"
  using train_loop_bias [OF length_peak_bias assms(3) assms(1) [unfolded peak_classifier_def]
      assms(2), of "[1]" rl]
  by (simp add: peak_classifier_def loaders_blank)

lemma validate13_still:
  assumes "params s = zero_classifier"
  shows "\<exists>s'. validate13 T (still_test e) s = Inr s' \<and> params s' = zero_classifier
           \<and> grad_enabled s' = grad_enabled s"
  using validate13_bias [OF assms [unfolded zero_classifier_bias] length_zero_bias, of "[0, 3]" T]
  by (simp add: zero_classifier_bias loaders_blank)

lemma validate17_still:
  assumes "params s = zero_classifier"
  shows "\<exists>s'. validate17 T (still_test e) s = Inr s' \<and> params s' = zero_classifier
           \<and> grad_enabled s' = grad_enabled s"
  using validate17_bias [OF assms [unfolded zero_classifier_bias] length_zero_bias, of "[0, 3]" T]
  by (simp add: zero_classifier_bias loaders_blank)

lemma validate13_peak:
  assumes "params s = peak_classifier"
  shows "\<exists>s'. validate13 T (peak_test e) s = Inr s' \<and> params s' = peak_classifier
           \<and> grad_enabled s' = grad_enabled s"
  using validate13_bias [OF assms [unfolded peak_classifier_def] length_peak_bias, of "[8, 3]" T]
  by (simp add: peak_classifier_def loaders_blank)

lemma validate17_peak:
  assumes "params s = peak_classifier"
  shows "\<exists>s'. validate17 T (peak_test e) s = Inr s' \<and> params s' = peak_classifier
           \<and> grad_enabled s' = grad_enabled s"
  using validate17_bias [OF assms [unfolded peak_classifier_def] length_peak_bias, of "[8, 3]" T]
  by (simp add: peak_classifier_def loaders_blank)

lemma epoch13_still:
  assumes "params s = zero_classifier" "grad_enabled s"
  shows "\<exists>s'. epoch13 still_torch (still_train e) (still_test e) s = Inr s'
           \<and> params s' = zero_classifier \<and> grad_enabled s'"
  using epoch13_bias [OF assms(1) [unfolded zero_classifier_bias] length_zero_bias assms(2),
      of "[1]" "[0, 3]"]
  by (simp add: zero_classifier_bias loaders_blank)

lemma epoch17_still:
  assumes "params s = zero_classifier" "grad_enabled s"
  shows "\<exists>s'. epoch17 still_torch (still_train e) (still_test e) s = Inr s'
           \<and> params s' = zero_classifier \<and> grad_enabled s'"
  using epoch17_bias [OF assms(1) [unfolded zero_classifier_bias] length_zero_bias assms(2),
      of "[1]" "[0, 3]"]
  by (simp add: zero_classifier_bias loaders_blank)

lemma epoch13_peak:
  assumes "params s = peak_classifier" "grad_enabled s"
  shows "\<exists>s'. epoch13 still_torch (still_train e) (peak_test e) s = Inr s'"
  using epoch13_bias [OF assms(1) [unfolded peak_classifier_def] length_peak_bias assms(2),
      of "[1]" "[8, 3]"]
  by (auto simp: loaders_blank)

lemma epoch17_peak:
  assumes "params s = peak_classifier" "grad_enabled s"
  shows "\<exists>s'. epoch17 still_torch (still_train e) (peak_test e) s = Inr s'"
  using epoch17_bias [OF assms(1) [unfolded peak_classifier_def] length_peak_bias assms(2),
      of "[1]" "[8, 3]"]
  by (auto simp: loaders_blank)

lemma epochs13_still:
  "params s = zero_classifier \<Longrightarrow> grad_enabled s \<Longrightarrow>
     \<exists>s'. epochs13 still_torch still_train still_test es s = Inr s'"
proof (induction es arbitrary: s)
  case Nil
  then show ?case by simp
next
  case (Cons e es)
  from epoch13_still [OF Cons.prems, of e] obtain s1 where
    "epoch13 still_torch (still_train e) (still_test e) s = Inr s1"
    "params s1 = zero_classifier" "grad_enabled s1"
    by auto
  with Cons.IH [of s1] show ?case by simp
qed

lemma epochs17_still:
  "params s = zero_classifier \<Longrightarrow> grad_enabled s \<Longrightarrow>
     \<exists>s'. epochs17 still_torch still_train still_test es s = Inr s'"
proof (induction es arbitrary: s)
  case Nil
  then show ?case by simp
next
  case (Cons e es)
  from epoch17_still [OF Cons.prems, of e] obtain s1 where
    "epoch17 still_torch (still_train e) (still_test e) s = Inr s1"
    "params s1 = zero_classifier" "grad_enabled s1"
    by auto
  with Cons.IH [of s1] show ?case by simp
qed

lemma still_state_simps:
  "params still_state = zero_classifier" "grad_enabled still_state" "mode still_state = Training"
  "trace still_state = []"
  by (simp_all add: still_state_def fresh_def)

lemma peak_state_simps:
  "params peak_state = peak_classifier" "grad_enabled peak_state" "mode peak_state = Training"
  "trace peak_state = []"
  by (simp_all add: peak_state_def fresh_def)

lemma train_loop_still_params:
  assumes "train_loop still_torch model (still_train e) (s, rl) = Inr (s1, rl1)"
    and "params s = zero_classifier" "grad_enabled s"
    and "model = call_plain \<or> model = call_dropout still_torch"
  shows "params s1 = zero_classifier"
  using train_loop_still [OF assms(2,3,4), of e rl] assms(1) by auto

lemma train_loop_peak_params:
  assumes "train_loop still_torch model (still_train e) (s, rl) = Inr (s1, rl1)"
    and "params s = peak_classifier" "grad_enabled s"
    and "model = call_plain \<or> model = call_dropout still_torch"
  shows "params s1 = peak_classifier"
  using train_loop_peak [OF assms(2,3,4), of e rl] assms(1) by auto

lemma length_still_test: "length (still_test e) = 2"
  by (simp add: still_test_def)

lemma length_still_train: "length (still_train e) = 1"
  by (simp add: still_train_def)

lemma final_batch_loss_still: "final_batch_loss zero_classifier (still_test e) = ln 10"
  by (simp add: final_batch_loss_def still_test_def blank_batch_def forward_plain_zero
      nll_loss_blank)

lemma epoch13_no_training:
  "params s = zero_classifier \<Longrightarrow> \<exists>s'. epoch13 T [] (still_test e) s = Inr s'"
  using validate13_still [of s T e] by (auto simp: epoch13_def)

lemma epoch17_no_training:
  "params s = zero_classifier \<Longrightarrow> \<exists>s'. epoch17 T [] (still_test e) s = Inr s'"
  using validate17_still [of s T e] by (auto simp: epoch17_def)

lemma linear_shape_zero: "linear_shape n_in n_out (zero_linear n_in n_out)"
  by (simp add: linear_shape_def zero_linear_def list_all_iff)

lemma classifier_shape_zero: "classifier_shape zero_classifier"
  by (simp add: classifier_shape_def zero_classifier_def linear_shape_zero)

lemma length_blank_image: "length blank_image = 784"
  by (simp add: blank_image_def)

lemma length_still_loaders:
  "length (concat (map still_test es)) = 2 * length es"
  "length (concat (map still_train es)) = length es"
  by (induction es) (simp_all add: still_test_def still_train_def)

lemma cell_unfold:
  "cell13 still_torch still_train still_test zero_classifier () () True
     = epochs13 still_torch still_train still_test [0..<epochs] still_state"
  "cell17 still_torch still_train still_test zero_classifier () () True
     = epochs17 still_torch still_train still_test [0..<epochs] still_state"
  by (simp_all add: cell13_def cell17_def still_state_def)

lemma cells_still:
  "\<exists>s'. cell13 still_torch still_train still_test zero_classifier () () True = Inr s'
     \<and> epochs13 still_torch still_train still_test [0..<epochs] still_state = Inr s'"
  "\<exists>s'. cell17 still_torch still_train still_test zero_classifier () () True = Inr s'
     \<and> epochs17 still_torch still_train still_test [0..<epochs] still_state = Inr s'"
  using epochs13_still [OF still_state_simps(1,2), of "[0..<epochs]"]
    epochs17_still [OF still_state_simps(1,2), of "[0..<epochs]"]
  by (simp_all only: cell_unfold simp_thms)

subsection \<open>Class 8 alone is the most probable one of the second model\<close>

lemma top_classes_peak: "top_classes (map exp (map (\<lambda>v. v - L) peak_bias)) = [8]"
  by (simp add: top_classes_def is_top_index_def peak_bias_def upt_rec [of _ "numeral n" for n])

lemma log_probs_peak: "log_probs peak_classifier [blank_image] = log_softmax [peak_bias]"
  by (simp add: log_probs_def peak_classifier_def forward_plain_bias length_peak_bias)

lemma top_classes_peak_row:
  "top_classes (map exp (hd (log_softmax [peak_bias]))) = [8]"
  using top_classes_peak [of "ln (sum_list (map exp peak_bias))"]
  by (simp add: log_softmax_def)

lemma no_ties_peak: "no_ties peak_classifier (peak_test e)"
  using top_classes_peak_row
  by (simp add: no_ties_def peak_test_def blank_batch_def log_probs_peak log_softmax_def)

lemma is_top_index_peak: "is_top_index (map exp (hd (log_softmax [peak_bias]))) y \<longleftrightarrow> y = 8"
  using in_top_classes [of y "map exp (hd (log_softmax [peak_bias]))"] top_classes_peak_row
  by simp

lemma mean_top_accuracy_peak: "mean_top_accuracy peak_classifier (peak_test e) * 100 = 50"
  using is_top_index_peak
  by (simp add: mean_top_accuracy_def mean_over_def peak_test_def blank_batch_def log_probs_peak
      top_fraction_def fraction_where_def log_softmax_def)

lemma mean_accuracy_peak: "mean_accuracy T peak_classifier (peak_test e) * 100 = 50"
  by (simp add: mean_accuracy_no_ties [OF no_ties_peak] mean_top_accuracy_peak)

lemma length_peak_test: "length (peak_test e) = 2"
  by (simp add: peak_test_def)


section \<open>Runs as chains of epochs, epochs as chains of training steps\<close>

lemma epoch13_performs:
  assumes "epoch13 T tr vb s = Inr s'"
  shows "\<exists>ss. length ss = Suc (length tr) \<and> hd ss = (s, 0)
           \<and> train_loop T call_plain tr (s, 0) = Inr (last ss)
           \<and> validate13 T vb (fst (last ss)) = Inr s'
           \<and> (\<forall>i<length tr. \<exists>log_ps loss.
                 performs T call_plain (tr ! i) (ss ! i) (ss ! Suc i) log_ps loss)"
proof -
  from assms obtain s1 rl where tl: "train_loop T call_plain tr (s, 0) = Inr (s1, rl)"
    and v: "validate13 T vb s1 = Inr s'"
    by (auto simp: epoch13_def and_then_eq_Inr)
  from train_loop_performs [OF tl] obtain ss where "length ss = Suc (length tr)"
    "hd ss = (s, 0)" "last ss = (s1, rl)"
    "\<forall>i<length tr. \<exists>log_ps loss. performs T call_plain (tr ! i) (ss ! i) (ss ! Suc i) log_ps loss"
    by blast
  with tl v show ?thesis
    by (intro exI [of _ ss]) simp
qed

lemma epoch17_performs:
  assumes "epoch17 T tr vb s = Inr s'"
  shows "\<exists>ss. length ss = Suc (length tr) \<and> hd ss = (s, 0)
           \<and> train_loop T (call_dropout T) tr (s, 0) = Inr (last ss)
           \<and> validate17 T vb (fst (last ss)) = Inr s'
           \<and> (\<forall>i<length tr. \<exists>log_ps loss.
                 performs T (call_dropout T) (tr ! i) (ss ! i) (ss ! Suc i) log_ps loss)"
proof -
  from assms obtain s1 rl where tl: "train_loop T (call_dropout T) tr (s, 0) = Inr (s1, rl)"
    and v: "validate17 T vb s1 = Inr s'"
    by (auto simp: epoch17_def and_then_eq_Inr)
  from train_loop_performs [OF tl] obtain ss where "length ss = Suc (length tr)"
    "hd ss = (s, 0)" "last ss = (s1, rl)"
    "\<forall>i<length tr. \<exists>log_ps loss.
       performs T (call_dropout T) (tr ! i) (ss ! i) (ss ! Suc i) log_ps loss"
    by blast
  with tl v show ?thesis
    by (intro exI [of _ ss]) simp
qed

lemma chain_cons:
  assumes "length ss = Suc n" and "hd ss = s1" and "P 0 s s1"
    and "\<forall>j<n. P (Suc j) (ss ! j) (ss ! Suc j)"
  shows "\<forall>j<Suc n. P j ((s # ss) ! j) ((s # ss) ! Suc j)"
proof (intro allI impI)
  fix j
  assume "j < Suc n"
  from assms(1) have "ss \<noteq> []" by auto
  with assms(2) have "ss ! 0 = s1" by (simp add: hd_conv_nth)
  with assms(3,4) \<open>j < Suc n\<close> show "P j ((s # ss) ! j) ((s # ss) ! Suc j)"
    by (cases j) simp_all
qed

lemma epochs13_chain:
  "epochs13 T trl tel es s = Inr s' \<Longrightarrow>
     \<exists>starts. length starts = Suc (length es) \<and> hd starts = s \<and> last starts = s'
        \<and> (\<forall>j<length es. epoch13 T (trl (es ! j)) (tel (es ! j)) (starts ! j)
              = Inr (starts ! Suc j))"
proof (induction es arbitrary: s)
  case Nil
  then show ?case by (intro exI [of _ "[s]"]) simp
next
  case (Cons e es)
  from Cons.prems obtain s1 where ep: "epoch13 T (trl e) (tel e) s = Inr s1"
    and rest: "epochs13 T trl tel es s1 = Inr s'"
    by (auto simp: and_then_eq_Inr)
  from Cons.IH [OF rest] obtain starts where len: "length starts = Suc (length es)"
    and hd: "hd starts = s1" and last: "last starts = s'"
    and steps: "\<forall>j<length es. epoch13 T (trl (es ! j)) (tel (es ! j)) (starts ! j)
              = Inr (starts ! Suc j)"
    by blast
  from len have ne: "starts \<noteq> []" by auto
  have "\<forall>j<Suc (length es). epoch13 T (trl ((e # es) ! j)) (tel ((e # es) ! j))
      ((s # starts) ! j) = Inr ((s # starts) ! Suc j)"
    using chain_cons [of starts "length es" s1
        "\<lambda>j a b. epoch13 T (trl ((e # es) ! j)) (tel ((e # es) ! j)) a = Inr b" s]
      len hd ep steps by simp
  with len last ne show ?case
    by (intro exI [of _ "s # starts"]) simp
qed

lemma epochs17_chain:
  "epochs17 T trl tel es s = Inr s' \<Longrightarrow>
     \<exists>starts. length starts = Suc (length es) \<and> hd starts = s \<and> last starts = s'
        \<and> (\<forall>j<length es. epoch17 T (trl (es ! j)) (tel (es ! j)) (starts ! j)
              = Inr (starts ! Suc j))"
proof (induction es arbitrary: s)
  case Nil
  then show ?case by (intro exI [of _ "[s]"]) simp
next
  case (Cons e es)
  from Cons.prems obtain s1 where ep: "epoch17 T (trl e) (tel e) s = Inr s1"
    and rest: "epochs17 T trl tel es s1 = Inr s'"
    by (auto simp: and_then_eq_Inr)
  from Cons.IH [OF rest] obtain starts where len: "length starts = Suc (length es)"
    and hd: "hd starts = s1" and last: "last starts = s'"
    and steps: "\<forall>j<length es. epoch17 T (trl (es ! j)) (tel (es ! j)) (starts ! j)
              = Inr (starts ! Suc j)"
    by blast
  from len have ne: "starts \<noteq> []" by auto
  have "\<forall>j<Suc (length es). epoch17 T (trl ((e # es) ! j)) (tel ((e # es) ! j))
      ((s # starts) ! j) = Inr ((s # starts) ! Suc j)"
    using chain_cons [of starts "length es" s1
        "\<lambda>j a b. epoch17 T (trl ((e # es) ! j)) (tel ((e # es) ! j)) a = Inr b" s]
      len hd ep steps by simp
  with len last ne show ?case
    by (intro exI [of _ "s # starts"]) simp
qed


section \<open>The claims\<close>

text \<open>
  C1, as amended. In the dropout loop the loss printed at the end of an epoch is the loss of
  the final validation minibatch alone (computed in evaluation mode, on the parameters the
  epoch's training pass has left), divided by the number of validation minibatches and
  then multiplied by 100. It is not the epoch mean, and it is not the final batch's loss
  times 100 either: the claim leaves out the division by \<^verbatim>\<open>len(testloader)\<close>.
\<close>

theorem reported_loss_is_final_batch_loss_over_batch_count:
  assumes "epoch17 T trainloader testloader s = Inr s'"
  shows "\<exists>s1 rl log_ps.
           train_loop T (call_dropout T) trainloader (s, 0) = Inr (s1, rl)
         \<and> forward_dropout (bernoulli T) (params s1) Evaluation (rng s1) (fst (last testloader))
             = Inr (log_ps, rng s1)
         \<and> nll_loss log_ps (snd (last testloader))
             = Inr (final_batch_loss (params s1) testloader)
         \<and> printed_losses (events_since s s')
             = [final_batch_loss (params s1) testloader / real (length testloader) * 100]"
proof -
  from assms obtain s1 rl where tl: "train_loop T (call_dropout T) trainloader (s, 0) = Inr (s1, rl)"
    and v: "validate17 T testloader s1 = Inr s'"
    by (auto simp: epoch17_def and_then_eq_Inr)
  from validate17_final_loss [OF v] obtain log_ps where
    f: "forward_plain (params s1) (fst (last testloader)) = Inr log_ps"
    and l: "nll_loss log_ps (snd (last testloader)) = Inr (final_batch_loss (params s1) testloader)"
    by blast
  from f have fd: "forward_dropout (bernoulli T) (params s1) Evaluation (rng s1)
      (fst (last testloader)) = Inr (log_ps, rng s1)"
    by (simp add: forward_dropout_eval)
  from epoch17_trace [OF assms] tl have
    "trace s' = trace s @ epoch17_events (length trainloader) (length testloader) (mode s)
       (mean_accuracy T (params s1) testloader) (final_batch_loss (params s1) testloader)"
    by auto
  then have "printed_losses (events_since s s')
      = [final_batch_loss (params s1) testloader / real (length testloader) * 100]"
    by (simp add: events_since_append epoch17_events_printed)
  with tl fd l show ?thesis by blast
qed

theorem reported_loss_witness:
  "\<not> isl (epoch17 still_torch (still_train 0) (still_test 0) still_state)
   \<and> printed_losses
        (new_events still_state (epoch17 still_torch (still_train 0) (still_test 0) still_state))
      = [final_batch_loss zero_classifier (still_test 0) / real (length (still_test 0)) * 100]"
proof -
  obtain s' where e17: "epoch17 still_torch (still_train 0) (still_test 0) still_state = Inr s'"
    using epoch17_still [of still_state 0] by (auto simp: still_state_simps)
  from reported_loss_is_final_batch_loss_over_batch_count [OF e17]
  obtain s1 rl where
    tl: "train_loop still_torch (call_dropout still_torch) (still_train 0) (still_state, 0)
           = Inr (s1, rl)"
    and pl: "printed_losses (events_since still_state s')
           = [final_batch_loss (params s1) (still_test 0) / real (length (still_test 0)) * 100]"
    by blast
  have "params s1 = zero_classifier"
    using train_loop_still_params [OF tl] by (simp add: still_state_simps)
  with pl e17 show ?thesis
    by (simp add: new_events_Inr)
qed

text \<open>
  C1 as stated fails. An epoch without training minibatches and with two validation
  minibatches, all parameters zero: every batch has loss \<open>ln 10\<close>, the final one too;
  the loop prints \<open>50 * ln 10\<close>, not the final batch's loss times 100.
\<close>

theorem reported_loss_counterexample:
  "printed_losses (new_events still_state (epoch17 still_torch [] (still_test 0) still_state))
     = [50 * ln 10]
   \<and> final_batch_loss zero_classifier (still_test 0) * 100 = 100 * ln 10
   \<and> printed_losses (new_events still_state (epoch17 still_torch [] (still_test 0) still_state))
     \<noteq> [final_batch_loss zero_classifier (still_test 0) * 100]"
proof -
  obtain s' where e17: "epoch17 still_torch [] (still_test 0) still_state = Inr s'"
    using epoch17_no_training [of still_state still_torch 0] by (auto simp: still_state_simps)
  from epoch17_trace [OF e17] obtain s1 rl where
    tl: "train_loop still_torch (call_dropout still_torch) [] (still_state, 0) = Inr (s1, rl)"
    and tr: "trace s' = trace still_state @ epoch17_events (length ([] :: batch list))
           (length (still_test 0)) (mode still_state) (mean_accuracy still_torch (params s1) (still_test 0))
           (final_batch_loss (params s1) (still_test 0))"
    by blast
  from tl have p: "params s1 = zero_classifier"
    by (auto simp: still_state_simps)
  have "printed_losses (events_since still_state s')
      = [final_batch_loss zero_classifier (still_test 0) / real (length (still_test 0)) * 100]"
    using tr p by (simp add: events_since_append epoch17_events_printed)
  then have pl: "printed_losses (new_events still_state
      (epoch17 still_torch [] (still_test 0) still_state)) = [50 * ln 10]"
    using e17 by (simp add: new_events_Inr final_batch_loss_still length_still_test)
  have "(50::real) * ln 10 \<noteq> 100 * ln 10"
    by simp
  with pl show ?thesis
    by (simp add: final_batch_loss_still)
qed

text \<open>
  C2. In both loops, whenever an epoch gets to its report, the accuracy it prints is the
  sum of the per-batch accuracies of the validation minibatches divided by their number
  (as a percentage: the figure carries a percent sign), where a batch's accuracy is the
  fraction of its examples for which the class that \<^verbatim>\<open>topk\<close> returns for the
  exponentiated log-probabilities is the true label; the parameters are the ones the
  training pass of that epoch has left. The class returned is always one of highest
  probability: the figure lies between the mean fraction of examples whose label is the
  only class of highest probability and the mean fraction of examples whose label is a
  class of highest probability. When no example has two classes of equal highest
  probability, the figure printed is exactly the mean, over the validation minibatches,
  of the fraction of examples whose class of highest probability is the true label,
  whatever the library does on ties.
\<close>

theorem reported_accuracy_is_mean_of_batch_accuracies:
  "(epoch13 T trainloader testloader s = Inr s' \<longrightarrow>
      (\<exists>s1 rl. train_loop T call_plain trainloader (s, 0) = Inr (s1, rl)
         \<and> printed_accuracies (events_since s s') = [mean_accuracy T (params s1) testloader * 100]
         \<and> mean_sole_top_accuracy (params s1) testloader \<le> mean_accuracy T (params s1) testloader
         \<and> mean_accuracy T (params s1) testloader \<le> mean_top_accuracy (params s1) testloader
         \<and> (no_ties (params s1) testloader \<longrightarrow>
              printed_accuracies (events_since s s')
                = [mean_top_accuracy (params s1) testloader * 100])))
   \<and> (epoch17 T trainloader testloader s = Inr s'' \<longrightarrow>
      (\<exists>s1 rl. train_loop T (call_dropout T) trainloader (s, 0) = Inr (s1, rl)
         \<and> printed_accuracies (events_since s s'') = [mean_accuracy T (params s1) testloader * 100]
         \<and> mean_sole_top_accuracy (params s1) testloader \<le> mean_accuracy T (params s1) testloader
         \<and> mean_accuracy T (params s1) testloader \<le> mean_top_accuracy (params s1) testloader
         \<and> (no_ties (params s1) testloader \<longrightarrow>
              printed_accuracies (events_since s s'')
                = [mean_top_accuracy (params s1) testloader * 100])))"
proof (rule conjI; rule impI)
  assume e: "epoch13 T trainloader testloader s = Inr s'"
  then obtain s1 rl where tl: "train_loop T call_plain trainloader (s, 0) = Inr (s1, rl)"
    and v: "validate13 T testloader s1 = Inr s'"
    by (auto simp: epoch13_def and_then_eq_Inr)
  from validate13_result [OF v] have rows:
    "list_all (\<lambda>b. list_all (\<lambda>row. row \<noteq> []) (log_probs (params s1) (fst b))) testloader"
    by simp
  from epoch13_trace [OF e] tl have
    "trace s' = trace s @ epoch13_events (length trainloader) (length testloader) (mode s)
           (mean_accuracy T (params s1) testloader)"
    by auto
  then have pr: "printed_accuracies (events_since s s')
      = [mean_accuracy T (params s1) testloader * 100]"
    by (simp add: events_since_append epoch13_events_printed)
  from mean_accuracy_bounds [OF rows, of T]
  have lo: "mean_sole_top_accuracy (params s1) testloader \<le> mean_accuracy T (params s1) testloader"
    and hi: "mean_accuracy T (params s1) testloader \<le> mean_top_accuracy (params s1) testloader"
    by simp_all
  have "no_ties (params s1) testloader \<longrightarrow>
      printed_accuracies (events_since s s') = [mean_top_accuracy (params s1) testloader * 100]"
    using pr by (simp add: mean_accuracy_no_ties)
  with tl pr lo hi show "\<exists>s1 rl. train_loop T call_plain trainloader (s, 0) = Inr (s1, rl)
         \<and> printed_accuracies (events_since s s') = [mean_accuracy T (params s1) testloader * 100]
         \<and> mean_sole_top_accuracy (params s1) testloader \<le> mean_accuracy T (params s1) testloader
         \<and> mean_accuracy T (params s1) testloader \<le> mean_top_accuracy (params s1) testloader
         \<and> (no_ties (params s1) testloader \<longrightarrow>
              printed_accuracies (events_since s s')
                = [mean_top_accuracy (params s1) testloader * 100])"
    by blast
next
  assume e: "epoch17 T trainloader testloader s = Inr s''"
  then obtain s1 rl where tl: "train_loop T (call_dropout T) trainloader (s, 0) = Inr (s1, rl)"
    and v: "validate17 T testloader s1 = Inr s''"
    by (auto simp: epoch17_def and_then_eq_Inr)
  from validate17_result [OF v] have rows:
    "list_all (\<lambda>b. list_all (\<lambda>row. row \<noteq> []) (log_probs (params s1) (fst b))) testloader"
    by simp
  from epoch17_trace [OF e] tl have
    "trace s'' = trace s @ epoch17_events (length trainloader) (length testloader) (mode s)
           (mean_accuracy T (params s1) testloader) (final_batch_loss (params s1) testloader)"
    by auto
  then have pr: "printed_accuracies (events_since s s'')
      = [mean_accuracy T (params s1) testloader * 100]"
    by (simp add: events_since_append epoch17_events_printed)
  from mean_accuracy_bounds [OF rows, of T]
  have lo: "mean_sole_top_accuracy (params s1) testloader \<le> mean_accuracy T (params s1) testloader"
    and hi: "mean_accuracy T (params s1) testloader \<le> mean_top_accuracy (params s1) testloader"
    by simp_all
  have "no_ties (params s1) testloader \<longrightarrow>
      printed_accuracies (events_since s s'') = [mean_top_accuracy (params s1) testloader * 100]"
    using pr by (simp add: mean_accuracy_no_ties)
  with tl pr lo hi show "\<exists>s1 rl. train_loop T (call_dropout T) trainloader (s, 0) = Inr (s1, rl)
         \<and> printed_accuracies (events_since s s'') = [mean_accuracy T (params s1) testloader * 100]
         \<and> mean_sole_top_accuracy (params s1) testloader \<le> mean_accuracy T (params s1) testloader
         \<and> mean_accuracy T (params s1) testloader \<le> mean_top_accuracy (params s1) testloader
         \<and> (no_ties (params s1) testloader \<longrightarrow>
              printed_accuracies (events_since s s'')
                = [mean_top_accuracy (params s1) testloader * 100])"
    by blast
qed

theorem reported_accuracy_is_mean_witness:
  "\<not> isl (epoch13 still_torch (still_train 0) (peak_test 0) peak_state)
   \<and> no_ties peak_classifier (peak_test 0)
   \<and> printed_accuracies
        (new_events peak_state (epoch13 still_torch (still_train 0) (peak_test 0) peak_state))
      = [mean_top_accuracy peak_classifier (peak_test 0) * 100]
   \<and> \<not> isl (epoch17 still_torch (still_train 0) (peak_test 0) peak_state)
   \<and> printed_accuracies
        (new_events peak_state (epoch17 still_torch (still_train 0) (peak_test 0) peak_state))
      = [mean_top_accuracy peak_classifier (peak_test 0) * 100]
   \<and> mean_top_accuracy peak_classifier (peak_test 0) * 100 = 50"
proof -
  obtain s' where e13: "epoch13 still_torch (still_train 0) (peak_test 0) peak_state = Inr s'"
    using epoch13_peak [of peak_state 0] by (auto simp: peak_state_simps)
  obtain s'' where e17: "epoch17 still_torch (still_train 0) (peak_test 0) peak_state = Inr s''"
    using epoch17_peak [of peak_state 0] by (auto simp: peak_state_simps)
  from reported_accuracy_is_mean_of_batch_accuracies
    [of still_torch "still_train 0" "peak_test 0" peak_state s' s''] e13 e17
  obtain s1 rl1 s2 rl2 where
    t1: "train_loop still_torch call_plain (still_train 0) (peak_state, 0) = Inr (s1, rl1)"
    and a1: "no_ties (params s1) (peak_test 0) \<longrightarrow> printed_accuracies (events_since peak_state s')
               = [mean_top_accuracy (params s1) (peak_test 0) * 100]"
    and t2: "train_loop still_torch (call_dropout still_torch) (still_train 0) (peak_state, 0)
               = Inr (s2, rl2)"
    and a2: "no_ties (params s2) (peak_test 0) \<longrightarrow> printed_accuracies (events_since peak_state s'')
               = [mean_top_accuracy (params s2) (peak_test 0) * 100]"
    by blast
  have "params s1 = peak_classifier" "params s2 = peak_classifier"
    using train_loop_peak_params [OF t1] train_loop_peak_params [OF t2]
    by (simp_all add: peak_state_simps)
  with a1 a2 e13 e17 show ?thesis
    by (simp add: new_events_Inr no_ties_peak mean_top_accuracy_peak)
qed

text \<open>
  C3, as amended. In the dropout loop, started with the mode flag at training, every
  forward pass of every validation pass runs with the flag at evaluation, every forward
  pass of every training pass runs with it at training, and the flag is at training when the
  run ends. The first loop never touches the flag: there it is at training throughout,
  during the validation passes as well, and \<^verbatim>\<open>model.eval()\<close> is never called.
\<close>

theorem mode_flag_in_both_loops:
  "(epochs17 T trainloader testloader es s = Inr s' \<and> mode s = Training \<longrightarrow>
       mode s' = Training
     \<and> forward_modes ValPass (events_since s s')
         = replicate (length (concat (map testloader es))) Evaluation
     \<and> forward_modes TrainPass (events_since s s')
         = replicate (length (concat (map trainloader es))) Training)
   \<and> (epochs13 T trainloader testloader es s = Inr s'' \<and> mode s = Training \<longrightarrow>
       mode s'' = Training
     \<and> forward_modes ValPass (events_since s s'')
         = replicate (length (concat (map testloader es))) Training
     \<and> forward_modes TrainPass (events_since s s'')
         = replicate (length (concat (map trainloader es))) Training
     \<and> ModelEval \<notin> set (events_since s s''))"
proof (rule conjI; rule impI; elim conjE)
  assume run: "epochs17 T trainloader testloader es s = Inr s'" and m: "mode s = Training"
  from epochs17_inv [OF run] m have "mode s' = Training" by simp
  moreover from epochs17_flags [OF run] m obtain new where "trace s' = trace s @ new"
    and "forward_modes ValPass new = replicate (length (concat (map testloader es))) Evaluation"
    and "forward_modes TrainPass new = replicate (length (concat (map trainloader es))) Training"
    by blast
  ultimately show "mode s' = Training
     \<and> forward_modes ValPass (events_since s s')
         = replicate (length (concat (map testloader es))) Evaluation
     \<and> forward_modes TrainPass (events_since s s')
         = replicate (length (concat (map trainloader es))) Training"
    by (simp add: events_since_append)
next
  assume run: "epochs13 T trainloader testloader es s = Inr s''" and m: "mode s = Training"
  from epochs13_inv [OF run] m obtain new0 where "mode s'' = Training"
    and "trace s'' = trace s @ new0" and "ModelEval \<notin> set new0"
    by auto
  moreover from epochs13_flags [OF run] m obtain new where "trace s'' = trace s @ new"
    and "forward_modes ValPass new = replicate (length (concat (map testloader es))) Training"
    and "forward_modes TrainPass new = replicate (length (concat (map trainloader es))) Training"
    by auto
  ultimately show "mode s'' = Training
     \<and> forward_modes ValPass (events_since s s'')
         = replicate (length (concat (map testloader es))) Training
     \<and> forward_modes TrainPass (events_since s s'')
         = replicate (length (concat (map trainloader es))) Training
     \<and> ModelEval \<notin> set (events_since s s'')"
    by (simp add: events_since_append)
qed

theorem mode_flag_witness:
  "\<not> isl (cell17 still_torch still_train still_test zero_classifier () () True)
   \<and> forward_modes ValPass (new_events still_state
        (cell17 still_torch still_train still_test zero_classifier () () True))
      = replicate 60 Evaluation
   \<and> forward_modes TrainPass (new_events still_state
        (cell17 still_torch still_train still_test zero_classifier () () True))
      = replicate 30 Training
   \<and> \<not> isl (cell13 still_torch still_train still_test zero_classifier () () True)
   \<and> forward_modes ValPass (new_events still_state
        (cell13 still_torch still_train still_test zero_classifier () () True))
      = replicate 60 Training
   \<and> forward_modes TrainPass (new_events still_state
        (cell13 still_torch still_train still_test zero_classifier () () True))
      = replicate 30 Training"
proof -
  from cells_still obtain s' s'' where
    c17: "cell17 still_torch still_train still_test zero_classifier () () True = Inr s'"
    and e17: "epochs17 still_torch still_train still_test [0..<epochs] still_state = Inr s'"
    and c13: "cell13 still_torch still_train still_test zero_classifier () () True = Inr s''"
    and e13: "epochs13 still_torch still_train still_test [0..<epochs] still_state = Inr s''"
    by blast
  have m: "mode still_state = Training"
    by (simp add: still_state_simps)
  from mode_flag_in_both_loops
    [of still_torch still_train still_test "[0..<epochs]" still_state s' s''] e13 e17 m
  have "forward_modes ValPass (events_since still_state s') = replicate 60 Evaluation"
    "forward_modes TrainPass (events_since still_state s') = replicate 30 Training"
    "forward_modes ValPass (events_since still_state s'') = replicate 60 Training"
    "forward_modes TrainPass (events_since still_state s'') = replicate 30 Training"
    by (simp_all add: length_still_loaders epochs_def)
  with new_events_eval [OF c17, of still_state] new_events_eval [OF c13, of still_state]
  show ?thesis
    by simp
qed

text \<open>
  C3 as stated fails for the first loop: in an epoch without training minibatches and with
  two validation minibatches, both validation forward passes run with the mode flag at
  training.
\<close>

theorem mode_flag_counterexample:
  "forward_modes ValPass
      (new_events still_state (epoch13 still_torch [] (still_test 0) still_state))
     = [Training, Training]"
proof -
  obtain s' where e13: "epoch13 still_torch [] (still_test 0) still_state = Inr s'"
    using epoch13_no_training [of still_state still_torch 0] by (auto simp: still_state_simps)
  from epoch13_trace [OF e13] obtain s1 rl where
    "train_loop still_torch call_plain [] (still_state, 0) = Inr (s1, rl)" and
    "trace s' = trace still_state @ epoch13_events (length ([] :: batch list))
           (length (still_test 0)) (mode still_state) (mean_accuracy still_torch (params s1) (still_test 0))"
    by blast
  then have "forward_modes ValPass (events_since still_state s') = [Training, Training]"
    by (simp add: events_since_append epoch13_events_flags still_state_simps length_still_test
        eval_nat_numeral)
  with new_events_eval [OF e13, of still_state] show ?thesis
    by simp
qed

text \<open>
  C4. In both loops, over any number of epochs, gradient tracking is off at the forward
  pass of every validation minibatch and on at the forward pass of every training
  minibatch, and leaving the \<^verbatim>\<open>no_grad\<close> scope puts the flag back: after the run it
  is what it was before.
\<close>

theorem gradient_tracking_in_both_loops:
  "(epochs13 T trainloader testloader es s = Inr s' \<longrightarrow>
       forward_grads ValPass (events_since s s')
         = replicate (length (concat (map testloader es))) False
     \<and> forward_grads TrainPass (events_since s s')
         = replicate (length (concat (map trainloader es))) True
     \<and> grad_enabled s' = grad_enabled s)
   \<and> (epochs17 T trainloader testloader es s = Inr s'' \<longrightarrow>
       forward_grads ValPass (events_since s s'')
         = replicate (length (concat (map testloader es))) False
     \<and> forward_grads TrainPass (events_since s s'')
         = replicate (length (concat (map trainloader es))) True
     \<and> grad_enabled s'' = grad_enabled s)"
proof (rule conjI; rule impI)
  assume run: "epochs13 T trainloader testloader es s = Inr s'"
  from epochs13_inv [OF run] have "grad_enabled s' = grad_enabled s" by simp
  moreover from epochs13_flags [OF run] obtain new where "trace s' = trace s @ new"
    and "forward_grads ValPass new = replicate (length (concat (map testloader es))) False"
    and "forward_grads TrainPass new = replicate (length (concat (map trainloader es))) True"
    by blast
  ultimately show "forward_grads ValPass (events_since s s')
         = replicate (length (concat (map testloader es))) False
     \<and> forward_grads TrainPass (events_since s s')
         = replicate (length (concat (map trainloader es))) True
     \<and> grad_enabled s' = grad_enabled s"
    by (simp add: events_since_append)
next
  assume run: "epochs17 T trainloader testloader es s = Inr s''"
  from epochs17_inv [OF run] have "grad_enabled s'' = grad_enabled s" by simp
  moreover from epochs17_flags [OF run] obtain new where "trace s'' = trace s @ new"
    and "forward_grads ValPass new = replicate (length (concat (map testloader es))) False"
    and "forward_grads TrainPass new = replicate (length (concat (map trainloader es))) True"
    by blast
  ultimately show "forward_grads ValPass (events_since s s'')
         = replicate (length (concat (map testloader es))) False
     \<and> forward_grads TrainPass (events_since s s'')
         = replicate (length (concat (map trainloader es))) True
     \<and> grad_enabled s'' = grad_enabled s"
    by (simp add: events_since_append)
qed

theorem gradient_tracking_witness:
  "\<not> isl (cell13 still_torch still_train still_test zero_classifier () () True)
   \<and> forward_grads ValPass (new_events still_state
        (cell13 still_torch still_train still_test zero_classifier () () True))
      = replicate 60 False
   \<and> forward_grads TrainPass (new_events still_state
        (cell13 still_torch still_train still_test zero_classifier () () True))
      = replicate 30 True
   \<and> \<not> isl (cell17 still_torch still_train still_test zero_classifier () () True)
   \<and> forward_grads ValPass (new_events still_state
        (cell17 still_torch still_train still_test zero_classifier () () True))
      = replicate 60 False
   \<and> forward_grads TrainPass (new_events still_state
        (cell17 still_torch still_train still_test zero_classifier () () True))
      = replicate 30 True"
proof -
  from cells_still obtain s' s'' where
    c13: "cell13 still_torch still_train still_test zero_classifier () () True = Inr s'"
    and e13: "epochs13 still_torch still_train still_test [0..<epochs] still_state = Inr s'"
    and c17: "cell17 still_torch still_train still_test zero_classifier () () True = Inr s''"
    and e17: "epochs17 still_torch still_train still_test [0..<epochs] still_state = Inr s''"
    by blast
  from gradient_tracking_in_both_loops
    [of still_torch still_train still_test "[0..<epochs]" still_state s' s''] e13 e17
  have "forward_grads ValPass (events_since still_state s') = replicate 60 False"
    "forward_grads TrainPass (events_since still_state s') = replicate 30 True"
    "forward_grads ValPass (events_since still_state s'') = replicate 60 False"
    "forward_grads TrainPass (events_since still_state s'') = replicate 30 True"
    by (simp_all add: length_still_loaders epochs_def)
  with new_events_eval [OF c17, of still_state] new_events_eval [OF c13, of still_state]
  show ?thesis
    by simp
qed

text \<open>
  C5. In both loops, a run over any number of epochs prints one accuracy per epoch, and
  every accuracy printed, read as the percentage it is printed as, lies between 0 and 1
  (the figure itself between 0 and 100).
\<close>

theorem reported_accuracy_in_unit_interval:
  "(epochs13 T trainloader testloader es s = Inr s' \<longrightarrow>
      length (printed_accuracies (events_since s s')) = length es \<and>
      set (printed_accuracies (events_since s s')) \<subseteq> {v. 0 \<le> v / 100 \<and> v / 100 \<le> 1})
   \<and> (epochs17 T trainloader testloader es s = Inr s'' \<longrightarrow>
      length (printed_accuracies (events_since s s'')) = length es \<and>
      set (printed_accuracies (events_since s s'')) \<subseteq> {v. 0 \<le> v / 100 \<and> v / 100 \<le> 1})"
proof (rule conjI; rule impI)
  assume "epochs13 T trainloader testloader es s = Inr s'"
  from epochs13_inv [OF this] obtain new where "trace s' = trace s @ new"
    and "set (printed_accuracies new) \<subseteq> {0..100}"
    and "length (printed_accuracies new) = length es"
    by blast
  then show "length (printed_accuracies (events_since s s')) = length es \<and>
      set (printed_accuracies (events_since s s')) \<subseteq> {v. 0 \<le> v / 100 \<and> v / 100 \<le> 1}"
    by (auto simp: events_since_append)
next
  assume "epochs17 T trainloader testloader es s = Inr s''"
  from epochs17_inv [OF this] obtain new where "trace s'' = trace s @ new"
    and "set (printed_accuracies new) \<subseteq> {0..100}"
    and "length (printed_accuracies new) = length es"
    by blast
  then show "length (printed_accuracies (events_since s s'')) = length es \<and>
      set (printed_accuracies (events_since s s'')) \<subseteq> {v. 0 \<le> v / 100 \<and> v / 100 \<le> 1}"
    by (auto simp: events_since_append)
qed

theorem reported_accuracy_in_unit_interval_witness:
  "\<not> isl (cell13 still_torch still_train still_test zero_classifier () () True)
   \<and> length (printed_accuracies (new_events still_state
        (cell13 still_torch still_train still_test zero_classifier () () True))) = 30
   \<and> set (printed_accuracies (new_events still_state
        (cell13 still_torch still_train still_test zero_classifier () () True)))
      \<subseteq> {v. 0 \<le> v / 100 \<and> v / 100 \<le> 1}
   \<and> \<not> isl (cell17 still_torch still_train still_test zero_classifier () () True)
   \<and> length (printed_accuracies (new_events still_state
        (cell17 still_torch still_train still_test zero_classifier () () True))) = 30
   \<and> set (printed_accuracies (new_events still_state
        (cell17 still_torch still_train still_test zero_classifier () () True)))
      \<subseteq> {v. 0 \<le> v / 100 \<and> v / 100 \<le> 1}"
proof -
  from cells_still obtain s' s'' where
    c13: "cell13 still_torch still_train still_test zero_classifier () () True = Inr s'"
    and e13: "epochs13 still_torch still_train still_test [0..<epochs] still_state = Inr s'"
    and c17: "cell17 still_torch still_train still_test zero_classifier () () True = Inr s''"
    and e17: "epochs17 still_torch still_train still_test [0..<epochs] still_state = Inr s''"
    by blast
  from reported_accuracy_in_unit_interval
    [of still_torch still_train still_test "[0..<epochs]" still_state s' s''] e13 e17
  have "length (printed_accuracies (events_since still_state s')) = 30"
    "set (printed_accuracies (events_since still_state s')) \<subseteq> {v. 0 \<le> v / 100 \<and> v / 100 \<le> 1}"
    "length (printed_accuracies (events_since still_state s'')) = 30"
    "set (printed_accuracies (events_since still_state s'')) \<subseteq> {v. 0 \<le> v / 100 \<and> v / 100 \<le> 1}"
    by (simp_all add: epochs_def)
  with new_events_eval [OF c13, of still_state] new_events_eval [OF c17, of still_state]
  show ?thesis
    by simp
qed

text \<open>
  C7. In both loops a run that completes is a chain of epochs, and the training pass of
  each epoch is a chain of steps, one per minibatch of that epoch's training source, in
  the order of the source, starting from the state the epoch has found and the running
  loss 0, and followed by the validation pass. Each step performs the six actions on its
  minibatch: it clears the accumulated gradients, runs the forward pass (whose output rows
  are log-probabilities), computes the loss against the labels, back-propagates (so that
  the accumulated gradient is that of this minibatch alone), applies one optimizer step
  to the parameters with that gradient, and adds the loss to the running loss; the trace
  shows the six calls in this order.
\<close>

theorem every_training_minibatch_gets_the_six_actions:
  "(epochs13 T trainloader testloader es s = Inr s' \<longrightarrow>
      (\<exists>starts. length starts = Suc (length es) \<and> hd starts = s \<and> last starts = s'
         \<and> (\<forall>j<length es. \<exists>ss.
               length ss = Suc (length (trainloader (es ! j)))
             \<and> hd ss = (starts ! j, 0)
             \<and> train_loop T call_plain (trainloader (es ! j)) (starts ! j, 0) = Inr (last ss)
             \<and> validate13 T (testloader (es ! j)) (fst (last ss)) = Inr (starts ! Suc j)
             \<and> (\<forall>i<length (trainloader (es ! j)). \<exists>log_ps loss.
                   performs T call_plain (trainloader (es ! j) ! i) (ss ! i) (ss ! Suc i)
                     log_ps loss))))
   \<and> (epochs17 T trainloader testloader es s = Inr s'' \<longrightarrow>
      (\<exists>starts. length starts = Suc (length es) \<and> hd starts = s \<and> last starts = s''
         \<and> (\<forall>j<length es. \<exists>ss.
               length ss = Suc (length (trainloader (es ! j)))
             \<and> hd ss = (starts ! j, 0)
             \<and> train_loop T (call_dropout T) (trainloader (es ! j)) (starts ! j, 0)
                 = Inr (last ss)
             \<and> validate17 T (testloader (es ! j)) (fst (last ss)) = Inr (starts ! Suc j)
             \<and> (\<forall>i<length (trainloader (es ! j)). \<exists>log_ps loss.
                   performs T (call_dropout T) (trainloader (es ! j) ! i) (ss ! i) (ss ! Suc i)
                     log_ps loss))))"
proof (rule conjI; rule impI)
  assume "epochs13 T trainloader testloader es s = Inr s'"
  from epochs13_chain [OF this] obtain starts where ends: "length starts = Suc (length es)"
    "hd starts = s" "last starts = s'"
    and steps: "\<forall>j<length es.
       epoch13 T (trainloader (es ! j)) (testloader (es ! j)) (starts ! j) = Inr (starts ! Suc j)"
    by blast
  have "\<forall>j<length es. \<exists>ss.
               length ss = Suc (length (trainloader (es ! j)))
             \<and> hd ss = (starts ! j, 0)
             \<and> train_loop T call_plain (trainloader (es ! j)) (starts ! j, 0) = Inr (last ss)
             \<and> validate13 T (testloader (es ! j)) (fst (last ss)) = Inr (starts ! Suc j)
             \<and> (\<forall>i<length (trainloader (es ! j)). \<exists>log_ps loss.
                   performs T call_plain (trainloader (es ! j) ! i) (ss ! i) (ss ! Suc i)
                     log_ps loss)"
  proof (intro allI impI)
    fix j
    assume "j < length es"
    with steps have "epoch13 T (trainloader (es ! j)) (testloader (es ! j)) (starts ! j)
        = Inr (starts ! Suc j)"
      by simp
    then show "\<exists>ss.
               length ss = Suc (length (trainloader (es ! j)))
             \<and> hd ss = (starts ! j, 0)
             \<and> train_loop T call_plain (trainloader (es ! j)) (starts ! j, 0) = Inr (last ss)
             \<and> validate13 T (testloader (es ! j)) (fst (last ss)) = Inr (starts ! Suc j)
             \<and> (\<forall>i<length (trainloader (es ! j)). \<exists>log_ps loss.
                   performs T call_plain (trainloader (es ! j) ! i) (ss ! i) (ss ! Suc i)
                     log_ps loss)"
      by (rule epoch13_performs)
  qed
  with ends show "\<exists>starts. length starts = Suc (length es) \<and> hd starts = s
         \<and> last starts = s'
         \<and> (\<forall>j<length es. \<exists>ss.
               length ss = Suc (length (trainloader (es ! j)))
             \<and> hd ss = (starts ! j, 0)
             \<and> train_loop T call_plain (trainloader (es ! j)) (starts ! j, 0) = Inr (last ss)
             \<and> validate13 T (testloader (es ! j)) (fst (last ss)) = Inr (starts ! Suc j)
             \<and> (\<forall>i<length (trainloader (es ! j)). \<exists>log_ps loss.
                   performs T call_plain (trainloader (es ! j) ! i) (ss ! i) (ss ! Suc i)
                     log_ps loss))"
    by blast
next
  assume "epochs17 T trainloader testloader es s = Inr s''"
  from epochs17_chain [OF this] obtain starts where ends: "length starts = Suc (length es)"
    "hd starts = s" "last starts = s''"
    and steps: "\<forall>j<length es.
       epoch17 T (trainloader (es ! j)) (testloader (es ! j)) (starts ! j) = Inr (starts ! Suc j)"
    by blast
  have "\<forall>j<length es. \<exists>ss.
               length ss = Suc (length (trainloader (es ! j)))
             \<and> hd ss = (starts ! j, 0)
             \<and> train_loop T (call_dropout T) (trainloader (es ! j)) (starts ! j, 0)
                 = Inr (last ss)
             \<and> validate17 T (testloader (es ! j)) (fst (last ss)) = Inr (starts ! Suc j)
             \<and> (\<forall>i<length (trainloader (es ! j)). \<exists>log_ps loss.
                   performs T (call_dropout T) (trainloader (es ! j) ! i) (ss ! i) (ss ! Suc i)
                     log_ps loss)"
  proof (intro allI impI)
    fix j
    assume "j < length es"
    with steps have "epoch17 T (trainloader (es ! j)) (testloader (es ! j)) (starts ! j)
        = Inr (starts ! Suc j)"
      by simp
    then show "\<exists>ss.
               length ss = Suc (length (trainloader (es ! j)))
             \<and> hd ss = (starts ! j, 0)
             \<and> train_loop T (call_dropout T) (trainloader (es ! j)) (starts ! j, 0)
                 = Inr (last ss)
             \<and> validate17 T (testloader (es ! j)) (fst (last ss)) = Inr (starts ! Suc j)
             \<and> (\<forall>i<length (trainloader (es ! j)). \<exists>log_ps loss.
                   performs T (call_dropout T) (trainloader (es ! j) ! i) (ss ! i) (ss ! Suc i)
                     log_ps loss)"
      by (rule epoch17_performs)
  qed
  with ends show "\<exists>starts. length starts = Suc (length es) \<and> hd starts = s
         \<and> last starts = s''
         \<and> (\<forall>j<length es. \<exists>ss.
               length ss = Suc (length (trainloader (es ! j)))
             \<and> hd ss = (starts ! j, 0)
             \<and> train_loop T (call_dropout T) (trainloader (es ! j)) (starts ! j, 0)
                 = Inr (last ss)
             \<and> validate17 T (testloader (es ! j)) (fst (last ss)) = Inr (starts ! Suc j)
             \<and> (\<forall>i<length (trainloader (es ! j)). \<exists>log_ps loss.
                   performs T (call_dropout T) (trainloader (es ! j) ! i) (ss ! i) (ss ! Suc i)
                     log_ps loss))"
    by blast
qed

theorem every_training_minibatch_witness:
  "\<not> isl (cell13 still_torch still_train still_test zero_classifier () () True)
   \<and> (\<exists>after. performs still_torch call_plain (blank_batch 1) (still_state, 0) after
         [replicate 10 (- ln 10)] (ln 10))
   \<and> \<not> isl (cell17 still_torch still_train still_test zero_classifier () () True)
   \<and> (\<exists>after. performs still_torch (call_dropout still_torch) (blank_batch 1) (still_state, 0)
         after [replicate 10 (- ln 10)] (ln 10))"
proof -
  from cells_still obtain s' s'' where
    c13: "cell13 still_torch still_train still_test zero_classifier () () True = Inr s'"
    and e13: "epochs13 still_torch still_train still_test [0..<epochs] still_state = Inr s'"
    and c17: "cell17 still_torch still_train still_test zero_classifier () () True = Inr s''"
    and e17: "epochs17 still_torch still_train still_test [0..<epochs] still_state = Inr s''"
    by blast
  have z: "0 < length [0..<epochs]" "[0..<epochs] ! 0 = 0"
    by (simp_all add: epochs_def)
  have tr: "0 < length (still_train 0)" "still_train 0 ! 0 = blank_batch 1"
    by (simp_all add: still_train_def)
  note run = every_training_minibatch_gets_the_six_actions
    [of still_torch still_train still_test "[0..<epochs]" still_state s' s'']
  from run [THEN conjunct1, THEN mp, OF e13] obtain st13 where
    h13: "length st13 = Suc (length [0..<epochs])" "hd st13 = still_state"
    and a13: "\<forall>j<length [0..<epochs]. \<exists>ss.
               length ss = Suc (length (still_train ([0..<epochs] ! j)))
             \<and> hd ss = (st13 ! j, 0)
             \<and> train_loop still_torch call_plain (still_train ([0..<epochs] ! j)) (st13 ! j, 0)
                 = Inr (last ss)
             \<and> validate13 still_torch (still_test ([0..<epochs] ! j)) (fst (last ss))
                 = Inr (st13 ! Suc j)
             \<and> (\<forall>i<length (still_train ([0..<epochs] ! j)). \<exists>log_ps loss.
                   performs still_torch call_plain (still_train ([0..<epochs] ! j) ! i)
                     (ss ! i) (ss ! Suc i) log_ps loss)"
    by blast
  from run [THEN conjunct2, THEN mp, OF e17] obtain st17 where
    h17: "length st17 = Suc (length [0..<epochs])" "hd st17 = still_state"
    and a17: "\<forall>j<length [0..<epochs]. \<exists>ss.
               length ss = Suc (length (still_train ([0..<epochs] ! j)))
             \<and> hd ss = (st17 ! j, 0)
             \<and> train_loop still_torch (call_dropout still_torch)
                 (still_train ([0..<epochs] ! j)) (st17 ! j, 0) = Inr (last ss)
             \<and> validate17 still_torch (still_test ([0..<epochs] ! j)) (fst (last ss))
                 = Inr (st17 ! Suc j)
             \<and> (\<forall>i<length (still_train ([0..<epochs] ! j)). \<exists>log_ps loss.
                   performs still_torch (call_dropout still_torch)
                     (still_train ([0..<epochs] ! j) ! i) (ss ! i) (ss ! Suc i) log_ps loss)"
    by blast
  from h13 have s13: "st13 ! 0 = still_state"
    by (cases st13) simp_all
  from h17 have s17: "st17 ! 0 = still_state"
    by (cases st17) simp_all
  from a13 [rule_format, OF z(1)] obtain ss13 where
    l13: "length ss13 = Suc (length (still_train 0))" and b13: "hd ss13 = (still_state, 0)"
    and p13: "\<forall>i<length (still_train 0). \<exists>log_ps loss.
                performs still_torch call_plain (still_train 0 ! i)
                  (ss13 ! i) (ss13 ! Suc i) log_ps loss"
    unfolding z(2) s13 by blast
  from a17 [rule_format, OF z(1)] obtain ss17 where
    l17: "length ss17 = Suc (length (still_train 0))" and b17: "hd ss17 = (still_state, 0)"
    and p17: "\<forall>i<length (still_train 0). \<exists>log_ps loss.
                performs still_torch (call_dropout still_torch) (still_train 0 ! i)
                  (ss17 ! i) (ss17 ! Suc i) log_ps loss"
    unfolding z(2) s17 by blast
  from l13 b13 have f13: "ss13 ! 0 = (still_state, 0)"
    by (cases ss13) simp_all
  from l17 b17 have f17: "ss17 ! 0 = (still_state, 0)"
    by (cases ss17) simp_all
  from p13 [rule_format, OF tr(1)] obtain log_ps13 loss13 where q13:
    "performs still_torch call_plain (blank_batch 1) (still_state, 0) (ss13 ! Suc 0)
       log_ps13 loss13"
    unfolding tr(2) f13 by blast
  from p17 [rule_format, OF tr(1)] obtain log_ps17 loss17 where q17:
    "performs still_torch (call_dropout still_torch) (blank_batch 1) (still_state, 0)
       (ss17 ! Suc 0) log_ps17 loss17"
    unfolding tr(2) f17 by blast
  from q13 have v13: "log_ps13 = [replicate 10 (- ln 10)]" "loss13 = ln 10"
    by (auto simp: performs_def blank_batch_def call_plain_def forward_plain_zero
        still_state_simps nll_loss_blank)
  from q17 have v17: "log_ps17 = [replicate 10 (- ln 10)]" "loss17 = ln 10"
    by (auto simp: performs_def blank_batch_def call_dropout_def forward_dropout_zero
        still_state_simps nll_loss_blank)
  from q13 have "\<exists>after. performs still_torch call_plain (blank_batch 1) (still_state, 0) after
         [replicate 10 (- ln 10)] (ln 10)"
    unfolding v13 by (rule exI)
  moreover from q17 have "\<exists>after. performs still_torch (call_dropout still_torch)
         (blank_batch 1) (still_state, 0) after [replicate 10 (- ln 10)] (ln 10)"
    unfolding v17 by (rule exI)
  ultimately show ?thesis
    using c13 c17 by simp
qed

text \<open>
  C8. A validation pass that has reported can be run again at once on the same minibatches:
  the second pass succeeds, adds exactly the same events to the trace, and so prints the
  same accuracy (the mean accuracy on the unchanged parameters). Neither pass changes the
  parameters, the accumulated gradients, the optimizer state, the dropout generator or
  the gradient-tracking flag. This holds for the validation pass of the dropout loop and
  for that of the first loop.
\<close>

theorem validation_pass_twice_same_accuracy:
  "(validate17 T testloader s = Inr s1 \<longrightarrow>
      (\<exists>s2. validate17 T testloader s1 = Inr s2
         \<and> printed_accuracies (events_since s1 s2) = printed_accuracies (events_since s s1)
         \<and> printed_accuracies (events_since s s1) = [mean_accuracy T (params s) testloader * 100]
         \<and> events_since s1 s2 = events_since s s1
         \<and> params s2 = params s \<and> grads s2 = grads s \<and> opt_state s2 = opt_state s
         \<and> rng s2 = rng s \<and> grad_enabled s2 = grad_enabled s))
   \<and> (validate13 T testloader s = Inr s3 \<longrightarrow>
      (\<exists>s4. validate13 T testloader s3 = Inr s4
         \<and> printed_accuracies (events_since s3 s4) = printed_accuracies (events_since s s3)
         \<and> printed_accuracies (events_since s s3) = [mean_accuracy T (params s) testloader * 100]
         \<and> events_since s3 s4 = events_since s s3
         \<and> params s4 = params s \<and> grads s4 = grads s \<and> opt_state s4 = opt_state s
         \<and> rng s4 = rng s \<and> grad_enabled s4 = grad_enabled s \<and> mode s4 = mode s))"
proof (rule conjI; rule impI)
  assume v: "validate17 T testloader s = Inr s1"
  let ?E = "[NoGradEnter, ModelEval]
            @ concat (replicate (length testloader) [Forward ValPass Evaluation False, Criterion ValPass])
            @ [ModelTrain, NoGradExit, PrintAccuracy (mean_accuracy T (params s) testloader * 100),
               PrintLoss (final_batch_loss (params s) testloader / real (length testloader) * 100)]"
  from validate17_result [OF v] have ne: "testloader \<noteq> []"
    and s1: "s1 = s\<lparr>mode := Training, trace := trace s @ ?E\<rparr>"
    by simp_all
  from v obtain al where al: "val_results17 T (params s) testloader (0, 0) = Inr al"
    by (auto simp: validate17_char and_then_eq_Inr)
  from s1 have p1: "params s1 = params s" by simp
  obtain s2 where v2: "validate17 T testloader s1 = Inr s2"
    using al ne by (simp add: validate17_char p1)
  from validate17_result [OF v2] have s2: "s2 = s1\<lparr>mode := Training, trace := trace s1 @ ?E\<rparr>"
    by (simp add: p1)
  have e1: "events_since s s1 = ?E"
    using s1 by (simp add: events_since_def)
  have e2: "events_since s1 s2 = ?E"
    using s2 by (simp add: events_since_def)
  have pa: "printed_accuracies ?E = [mean_accuracy T (params s) testloader * 100]"
    by (simp add: observer_append observer_blocks)
  show "\<exists>s2. validate17 T testloader s1 = Inr s2
         \<and> printed_accuracies (events_since s1 s2) = printed_accuracies (events_since s s1)
         \<and> printed_accuracies (events_since s s1) = [mean_accuracy T (params s) testloader * 100]
         \<and> events_since s1 s2 = events_since s s1
         \<and> params s2 = params s \<and> grads s2 = grads s \<and> opt_state s2 = opt_state s
         \<and> rng s2 = rng s \<and> grad_enabled s2 = grad_enabled s"
    using v2 e1 e2 pa s1 s2 by simp
next
  assume v: "validate13 T testloader s = Inr s3"
  let ?E = "[NoGradEnter] @ replicate (length testloader) (Forward ValPass (mode s) False)
            @ [NoGradExit, PrintAccuracy (mean_accuracy T (params s) testloader * 100)]"
  from validate13_result [OF v] have ne: "testloader \<noteq> []"
    and s3: "s3 = s\<lparr>trace := trace s @ ?E\<rparr>"
    by simp_all
  from v obtain a where a: "val_results13 T (params s) testloader 0 = Inr a"
    by (auto simp: validate13_char and_then_eq_Inr)
  from s3 have p3: "params s3 = params s" "mode s3 = mode s" by simp_all
  obtain s4 where v4: "validate13 T testloader s3 = Inr s4"
    using a ne by (simp add: validate13_char p3)
  from validate13_result [OF v4] have s4: "s4 = s3\<lparr>trace := trace s3 @ ?E\<rparr>"
    by (simp add: p3)
  have e1: "events_since s s3 = ?E"
    using s3 by (simp add: events_since_def)
  have e2: "events_since s3 s4 = ?E"
    using s4 by (simp add: events_since_def)
  have pa: "printed_accuracies ?E = [mean_accuracy T (params s) testloader * 100]"
    by (simp add: observer_append observer_blocks)
  show "\<exists>s4. validate13 T testloader s3 = Inr s4
         \<and> printed_accuracies (events_since s3 s4) = printed_accuracies (events_since s s3)
         \<and> printed_accuracies (events_since s s3) = [mean_accuracy T (params s) testloader * 100]
         \<and> events_since s3 s4 = events_since s s3
         \<and> params s4 = params s \<and> grads s4 = grads s \<and> opt_state s4 = opt_state s
         \<and> rng s4 = rng s \<and> grad_enabled s4 = grad_enabled s \<and> mode s4 = mode s"
    using v4 e1 e2 pa s3 s4 by simp
qed

theorem validation_pass_twice_witness:
  "(\<exists>s1 s2. validate17 still_torch (peak_test 0) peak_state = Inr s1
       \<and> validate17 still_torch (peak_test 0) s1 = Inr s2
       \<and> printed_accuracies (events_since peak_state s1) = [50]
       \<and> printed_accuracies (events_since s1 s2) = [50])
   \<and> (\<exists>s3 s4. validate13 still_torch (peak_test 0) peak_state = Inr s3
       \<and> validate13 still_torch (peak_test 0) s3 = Inr s4
       \<and> printed_accuracies (events_since peak_state s3) = [50]
       \<and> printed_accuracies (events_since s3 s4) = [50])"
proof -
  obtain s1 where v17: "validate17 still_torch (peak_test 0) peak_state = Inr s1"
    using validate17_peak [of peak_state still_torch 0] by (auto simp: peak_state_simps)
  obtain s3 where v13: "validate13 still_torch (peak_test 0) peak_state = Inr s3"
    using validate13_peak [of peak_state still_torch 0] by (auto simp: peak_state_simps)
  from validation_pass_twice_same_accuracy
    [of still_torch "peak_test 0" peak_state s1 s3] v17 v13
  show ?thesis
    by (auto simp: peak_state_simps mean_accuracy_peak)
qed

text \<open>
  C9. When the validation source yields no minibatch, the division
  \<^verbatim>\<open>accuracy_accum / len(testloader)\<close> divides the integer 0 by the integer 0. Neither
  loop guards it, so the validation part of the epoch ends in Python's own
  \<^verbatim>\<open>ZeroDivisionError\<close>, which is no error of the program's making, and nothing is
  printed: an epoch over such a source is its training pass followed by that exception.
\<close>

theorem empty_validation_source_raises_zero_division:
  "validate13 T [] s = Inl ZeroDivisionError
   \<and> validate17 T [] s = Inl ZeroDivisionError
   \<and> epoch13 T trainloader [] s =
       and_then (train_loop T call_plain trainloader (s, 0)) (\<lambda>sr. Inl ZeroDivisionError)
   \<and> epoch17 T trainloader [] s =
       and_then (train_loop T (call_dropout T) trainloader (s, 0)) (\<lambda>sr. Inl ZeroDivisionError)"
  by (simp add: validate13_def validate17_def epoch13_def epoch17_def case_prod_unfold)

theorem empty_validation_source_witness:
  "epoch13 still_torch [] [] still_state = Inl ZeroDivisionError
   \<and> epoch17 still_torch [] [] still_state = Inl ZeroDivisionError"
  using empty_validation_source_raises_zero_division [of still_torch still_state "[]"]
  by simp

text \<open>
  C10. The inference cell, on a model with the layer sizes of \<^verbatim>\<open>__init__\<close> and a test
  loader whose first batch starts with an image of 784 pixels, returns normally. It sets
  the mode flag to evaluation (and leaves it there), runs the forward pass on that one
  image with gradient tracking off, and calls the plotting helper with the image and the
  element-wise exponential of the forward pass's output. Because the forward pass ends in
  \<^verbatim>\<open>log_softmax\<close> over the 10 outputs of the last layer, what it hands over has 10
  entries, none negative, that sum to 1.
\<close>

theorem inference_hands_over_probability_distribution:
  assumes "classifier_shape (params s)"
    and "testloader = (img0 # imgs, labels) # rest"
    and "length img0 = 784"
  shows "\<exists>s' out.
           cell19 T testloader s = Inr s'
         \<and> forward_dropout (bernoulli T) (params s) Evaluation (rng s) [img0] = Inr ([out], rng s)
         \<and> mode s' = Evaluation
         \<and> events_since s s' =
             [ModelEval, NoGradEnter, Forward Inference Evaluation False, NoGradExit,
              ViewClassify [img0] [map exp out]]
         \<and> length (map exp out) = 10
         \<and> list_all (\<lambda>p. 0 \<le> p) (map exp out)
         \<and> sum_list (map exp out) = 1"
proof -
  from forward_plain_single [OF assms(1,3)] obtain out where
    f: "forward_plain (params s) [img0] = Inr [out]" and l: "length out = 10"
    and one: "sum_list (map exp out) = 1"
    by blast
  have fd: "forward_dropout (bernoulli T) (params s) Evaluation r [img0] = Inr ([out], r)" for r
    by (simp add: forward_dropout_eval f)
  let ?s' = "s\<lparr>mode := Evaluation,
               trace := trace s @ [ModelEval, NoGradEnter, Forward Inference Evaluation False,
                 NoGradExit, ViewClassify [img0] [map exp out]]\<rparr>"
  have run: "cell19 T testloader s = Inr ?s'"
    by (simp add: cell19_def assms(2,3) call_dropout_def fd exp_t_def Let_def)
  have "list_all (\<lambda>p. 0 \<le> p) (map exp out)"
    by (simp add: list_all_iff)
  with run fd [of "rng s"] l one show ?thesis
    by (intro exI [of _ ?s'] exI [of _ out]) (simp add: events_since_def)
qed

theorem inference_witness:
  "classifier_shape (params still_state)
   \<and> length blank_image = 784
   \<and> (\<exists>s'. cell19 still_torch [blank_batch 7] still_state = Inr s'
         \<and> mode s' = Evaluation
         \<and> events_since still_state s' =
             [ModelEval, NoGradEnter, Forward Inference Evaluation False, NoGradExit,
              ViewClassify [blank_image] [replicate 10 (1 / 10)]])"
proof -
  have c: "classifier_shape (params still_state)"
    by (simp add: still_state_simps classifier_shape_zero)
  have b: "[blank_batch 7] = (blank_image # [], [7]) # []"
    by (simp add: blank_batch_def)
  from inference_hands_over_probability_distribution [OF c b length_blank_image, of still_torch]
  obtain s' out where "cell19 still_torch [blank_batch 7] still_state = Inr s'"
    and "forward_dropout (bernoulli still_torch) (params still_state) Evaluation
           (rng still_state) [blank_image] = Inr ([out], rng still_state)"
    and "mode s' = Evaluation"
    and "events_since still_state s' =
             [ModelEval, NoGradEnter, Forward Inference Evaluation False, NoGradExit,
              ViewClassify [blank_image] [map exp out]]"
    by blast
  moreover from this(2) have "out = replicate 10 (- ln 10)"
    by (simp add: still_state_simps forward_dropout_zero)
  moreover have "map exp (replicate 10 (- ln (10::real))) = replicate 10 (1 / 10)"
    by (simp add: exp_minus)
  ultimately show ?thesis
    using c length_blank_image by auto
qed

end
